theory Spec2Isabelle
  imports Complex_Main
begin

section \<open>Values shared by the two variants of the pipeline\<close>

text \<open>
  The repository holds two programs. \<^verbatim>\<open>run_etl.py\<close> is the distributed variant: it
  describes its tables with explicit Spark schemas and transforms them with column
  expressions. \<^verbatim>\<open>etl_cloud_run.py\<close> is the single-process variant on pandas data
  frames. Both are embedded below, function by function, under the names of the source.

  Dates and timestamps are the integers the engines store (days, respectively
  micro- or nanoseconds, since the epoch). No claim depends on calendar arithmetic, so
  parsing and the calendar functions of the engines are parameters of the model.
\<close>

type_synonym date = int
type_synonym timestamp = int

text \<open>
  A double is a finite number, an infinity or NaN. The program only compares doubles
  with constants and never computes with them, so a finite double is modelled by the
  real number it denotes.
\<close>

datatype double = NegInf | Finite real | PosInf | NaN

text \<open>
  Spark SQL orders doubles totally: NaN equals NaN and is larger than every other
  value, the infinities are the ends of the finite numbers.
\<close>

fun double_le :: "double \<Rightarrow> double \<Rightarrow> bool" where
  "double_le x NaN = True"
| "double_le NaN y = False"
| "double_le NegInf y = True"
| "double_le x NegInf = False"
| "double_le x PosInf = True"
| "double_le PosInf y = False"
| "double_le (Finite a) (Finite b) = (a \<le> b)"

definition double_lt :: "double \<Rightarrow> double \<Rightarrow> bool" where
  "double_lt x y = (\<not> double_le y x)"

definition double_ge :: "double \<Rightarrow> double \<Rightarrow> bool" where
  "double_ge x y = double_le y x"

section \<open>The distributed variant: \<^verbatim>\<open>run_etl.py\<close>\<close>

text \<open>
  The functions of \<^verbatim>\<open>pyspark.sql.functions\<close> that the transformations call on text
  and on timestamps, each applied to a non-null argument (on a null argument every one
  of them yields null, which the transformations below write out with
  \<^const>\<open>Option.bind\<close> and \<^const>\<open>map_option\<close>). A parser yields \<^const>\<open>None\<close> for
  text it cannot read.
\<close>

record sql_functions =
  to_date :: "string \<Rightarrow> date option"
  to_timestamp :: "string \<Rightarrow> timestamp option"
  cast_double :: "string \<Rightarrow> double option"
  cast_date :: "timestamp \<Rightarrow> date"
  year :: "date \<Rightarrow> int"
  month :: "date \<Rightarrow> int"
  dayofweek :: "date \<Rightarrow> int"
  current_timestamp :: timestamp

subsection \<open>Hospital-analysis records\<close>

text \<open>
  \<^verbatim>\<open>read_hospital_analysis_data\<close> reads with \<^verbatim>\<open>analysis_schema\<close>: every field is
  nullable, \<^verbatim>\<open>age\<close>, \<^verbatim>\<open>length_of_stay\<close> and \<^verbatim>\<open>satisfaction\<close> are integers and
  \<^verbatim>\<open>cost\<close> is a double. A table is the list of its rows.
\<close>

record analysis_csv =
  ra_patient_id :: "string option"
  ra_age :: "int option"
  ra_gender :: "string option"
  ra_condition :: "string option"
  ra_procedure :: "string option"
  ra_cost :: "double option"
  ra_length_of_stay :: "int option"
  ra_readmission :: "string option"
  ra_outcome :: "string option"
  ra_satisfaction :: "int option"

text \<open>The transformed table has the columns of the schema and \<^verbatim>\<open>created_at\<close>.\<close>

record analysis =
  a_patient_id :: "string option"
  a_age :: "int option"
  a_gender :: "string option"
  a_condition :: "string option"
  a_procedure :: "string option"
  a_cost :: "double option"
  a_length_of_stay :: "int option"
  a_readmission :: "string option"
  a_outcome :: "string option"
  a_satisfaction :: "int option"
  a_created_at :: "timestamp option"

text \<open>
  \<^verbatim>\<open>when(col(c).isNull(), d).otherwise(col(c))\<close>: the fill of a text column.
\<close>

definition fill_null :: "string \<Rightarrow> string option \<Rightarrow> string option" where
  "fill_null d c = (case c of None \<Rightarrow> Some d | Some s \<Rightarrow> Some s)"

text \<open>
  The \<^verbatim>\<open>when\<close> chains of \<^verbatim>\<open>transform_hospital_analysis_data\<close>, in the order of
  the source: the null test first, then the lower bound, then the upper bound.
\<close>

definition satisfaction_column :: "int option \<Rightarrow> int option" where
  "satisfaction_column c =
     (case c of None \<Rightarrow> Some 3
      | Some s \<Rightarrow> if s < 1 then Some 1 else if s > 5 then Some 5 else Some s)"

definition age_column :: "int option \<Rightarrow> int option" where
  "age_column c =
     (case c of None \<Rightarrow> Some 0
      | Some a \<Rightarrow> if a < 0 then Some 0 else if a > 120 then Some 120 else Some a)"

definition cost_column :: "double option \<Rightarrow> double option" where
  "cost_column c =
     (case c of None \<Rightarrow> Some (Finite 0)
      | Some x \<Rightarrow> if double_lt x (Finite 0) then Some (Finite 0) else Some x)"

definition length_of_stay_column :: "int option \<Rightarrow> int option" where
  "length_of_stay_column c =
     (case c of None \<Rightarrow> Some 0 | Some n \<Rightarrow> if n < 0 then Some 0 else Some n)"

definition transform_hospital_analysis_row :: "sql_functions \<Rightarrow> analysis_csv \<Rightarrow> analysis" where
  "transform_hospital_analysis_row F r =
     \<lparr> a_patient_id = ra_patient_id r,
       a_age = age_column (ra_age r),
       a_gender = fill_null ''Unknown'' (ra_gender r),
       a_condition = fill_null ''Unknown'' (ra_condition r),
       a_procedure = fill_null ''Unknown'' (ra_procedure r),
       a_cost = cost_column (ra_cost r),
       a_length_of_stay = length_of_stay_column (ra_length_of_stay r),
       a_readmission = fill_null ''No'' (ra_readmission r),
       a_outcome = fill_null ''Unknown'' (ra_outcome r),
       a_satisfaction = satisfaction_column (ra_satisfaction r),
       a_created_at = Some (current_timestamp F) \<rparr>"

text \<open>
  Every \<^verbatim>\<open>withColumn\<close> computes the new column row by row, so the transformation is
  a map over the rows.
\<close>

definition transform_hospital_analysis_data :: "sql_functions \<Rightarrow> analysis_csv list \<Rightarrow> analysis list" where
  "transform_hospital_analysis_data F df = map (transform_hospital_analysis_row F) df"

subsection \<open>Three-valued conditions\<close>

text \<open>
  A comparison with a null operand is null, \<^verbatim>\<open>&\<close> is the conjunction of SQL, and a
  \<^verbatim>\<open>when\<close> takes its branch only where the condition is true (not where it is
  false or null).
\<close>

definition is_true :: "bool option \<Rightarrow> bool" where
  "is_true b = (b = Some True)"

definition is_not_null :: "'a option \<Rightarrow> bool option" where
  "is_not_null c = Some (c \<noteq> None)"

fun and3 :: "bool option \<Rightarrow> bool option \<Rightarrow> bool option" where
  "and3 (Some False) b = Some False"
| "and3 a (Some False) = Some False"
| "and3 (Some True) (Some True) = Some True"
| "and3 a b = None"

definition ge :: "double option \<Rightarrow> double \<Rightarrow> bool option" where
  "ge c k = map_option (\<lambda>x. double_ge x k) c"

definition neq :: "string option \<Rightarrow> string \<Rightarrow> bool option" where
  "neq c s = map_option (\<lambda>x. x \<noteq> s) c"

subsection \<open>Treatment records\<close>

text \<open>\<^verbatim>\<open>read_treatment_data\<close> reads every field of \<^verbatim>\<open>treatment_schema\<close> as text.\<close>

record treatment_csv =
  rt_treatment_id :: "string option"
  rt_patient_id :: "string option"
  rt_treatment_type :: "string option"
  rt_treatment_date :: "string option"
  rt_doctor_name :: "string option"
  rt_treatment_notes :: "string option"
  rt_cost :: "string option"
  rt_created_at :: "string option"

record treatment =
  t_treatment_id :: "string option"
  t_patient_id :: "string option"
  t_treatment_type :: "string option"
  t_treatment_date :: "timestamp option"
  t_doctor_name :: "string option"
  t_treatment_notes :: "string option"
  t_cost :: "double option"
  t_created_at :: "timestamp option"
  t_treatment_year :: "int option"
  t_treatment_month :: "int option"
  t_treatment_day_of_week :: "int option"
  t_cost_category :: "string option"
  t_has_valid_cost :: bool
  t_has_valid_doctor :: bool
  t_has_valid_treatment_type :: bool
  t_processed_at :: timestamp

text \<open>
  The bucket of \<^verbatim>\<open>transform_treatment_data\<close>: three \<^verbatim>\<open>when\<close> branches in the
  order of the source and the \<^verbatim>\<open>otherwise\<close>.
\<close>

definition cost_category :: "double option \<Rightarrow> string" where
  "cost_category cost =
     (if is_true (ge cost (Finite 5000)) then ''High Cost''
      else if is_true (ge cost (Finite 1000)) then ''Medium Cost''
      else if is_true (ge cost (Finite 100)) then ''Low Cost''
      else ''Minimal Cost'')"

text \<open>
  The first group of \<^verbatim>\<open>withColumn\<close> calls parses the two timestamps and casts the
  cost; the later groups read the columns the first group wrote.
\<close>

definition transform_treatment_row :: "sql_functions \<Rightarrow> treatment_csv \<Rightarrow> treatment" where
  "transform_treatment_row F r =
     (let treatment_date = Option.bind (rt_treatment_date r) (to_timestamp F);
          created_at = Option.bind (rt_created_at r) (to_timestamp F);
          cost = Option.bind (rt_cost r) (cast_double F)
      in \<lparr> t_treatment_id = rt_treatment_id r,
           t_patient_id = rt_patient_id r,
           t_treatment_type = rt_treatment_type r,
           t_treatment_date = treatment_date,
           t_doctor_name = rt_doctor_name r,
           t_treatment_notes = rt_treatment_notes r,
           t_cost = cost,
           t_created_at = created_at,
           t_treatment_year = map_option (\<lambda>t. year F (cast_date F t)) treatment_date,
           t_treatment_month = map_option (\<lambda>t. month F (cast_date F t)) treatment_date,
           t_treatment_day_of_week = map_option (\<lambda>t. dayofweek F (cast_date F t)) treatment_date,
           t_cost_category = Some (cost_category cost),
           t_has_valid_cost = is_true (and3 (is_not_null cost) (ge cost (Finite 0))),
           t_has_valid_doctor =
             is_true (and3 (is_not_null (rt_doctor_name r)) (neq (rt_doctor_name r) [])),
           t_has_valid_treatment_type =
             is_true (and3 (is_not_null (rt_treatment_type r)) (neq (rt_treatment_type r) [])),
           t_processed_at = current_timestamp F \<rparr>)"

definition transform_treatment_data :: "sql_functions \<Rightarrow> treatment_csv list \<Rightarrow> treatment list" where
  "transform_treatment_data F df = map (transform_treatment_row F) df"

subsection \<open>Patient records\<close>

text \<open>\<^verbatim>\<open>read_patient_data\<close> reads every field of \<^verbatim>\<open>patient_schema\<close> as text.\<close>

record patient_csv =
  rp_patient_id :: "string option"
  rp_first_name :: "string option"
  rp_last_name :: "string option"
  rp_date_of_birth :: "string option"
  rp_gender :: "string option"
  rp_admission_date :: "string option"
  rp_discharge_date :: "string option"
  rp_diagnosis :: "string option"
  rp_created_at :: "string option"

record patient =
  p_patient_id :: "string option"
  p_first_name :: "string option"
  p_last_name :: "string option"
  p_date_of_birth :: "date option"
  p_gender :: "string option"
  p_admission_date :: "timestamp option"
  p_discharge_date :: "timestamp option"
  p_diagnosis :: "string option"
  p_created_at :: "timestamp option"
  p_age_at_admission :: "int option"
  p_length_of_stay_days :: "int option"
  p_full_name :: "string option"
  p_has_valid_dates :: bool
  p_has_valid_diagnosis :: bool
  p_processed_at :: timestamp

text \<open>
  \<^verbatim>\<open>concat\<close> is null as soon as one argument is null; so are the difference of two
  years and \<^verbatim>\<open>datediff\<close>, which casts both timestamps to dates and counts the days
  from the second to the first.
\<close>

definition concat3 :: "string option \<Rightarrow> string \<Rightarrow> string option \<Rightarrow> string option" where
  "concat3 a sep b =
     (case a of None \<Rightarrow> None
      | Some x \<Rightarrow> (case b of None \<Rightarrow> None | Some y \<Rightarrow> Some (x @ sep @ y)))"

definition minus3 :: "int option \<Rightarrow> int option \<Rightarrow> int option" where
  "minus3 a b =
     (case a of None \<Rightarrow> None
      | Some x \<Rightarrow> (case b of None \<Rightarrow> None | Some y \<Rightarrow> Some (x - y)))"

definition datediff :: "sql_functions \<Rightarrow> timestamp option \<Rightarrow> timestamp option \<Rightarrow> int option" where
  "datediff F e s = minus3 (map_option (cast_date F) e) (map_option (cast_date F) s)"

definition transform_patient_row :: "sql_functions \<Rightarrow> patient_csv \<Rightarrow> patient" where
  "transform_patient_row F r =
     (let date_of_birth = Option.bind (rp_date_of_birth r) (to_date F);
          admission_date = Option.bind (rp_admission_date r) (to_timestamp F);
          discharge_date = Option.bind (rp_discharge_date r) (to_timestamp F);
          created_at = Option.bind (rp_created_at r) (to_timestamp F)
      in \<lparr> p_patient_id = rp_patient_id r,
           p_first_name = rp_first_name r,
           p_last_name = rp_last_name r,
           p_date_of_birth = date_of_birth,
           p_gender = rp_gender r,
           p_admission_date = admission_date,
           p_discharge_date = discharge_date,
           p_diagnosis = rp_diagnosis r,
           p_created_at = created_at,
           p_age_at_admission =
             minus3 (map_option (\<lambda>t. year F (cast_date F t)) admission_date)
                    (map_option (year F) date_of_birth),
           p_length_of_stay_days = datediff F discharge_date admission_date,
           p_full_name = concat3 (rp_first_name r) '' '' (rp_last_name r),
           p_has_valid_dates =
             is_true (and3 (is_not_null admission_date) (is_not_null discharge_date)),
           p_has_valid_diagnosis =
             is_true (and3 (is_not_null (rp_diagnosis r)) (neq (rp_diagnosis r) [])),
           p_processed_at = current_timestamp F \<rparr>)"

definition transform_patient_data :: "sql_functions \<Rightarrow> patient_csv list \<Rightarrow> patient list" where
  "transform_patient_data F df = map (transform_patient_row F) df"

section \<open>Data frames\<close>

text \<open>
  \<^verbatim>\<open>validate_data\<close> and \<^verbatim>\<open>write_to_bigquery\<close> take any data frame and name its
  columns by text, and the pandas variant does so throughout. For them a data frame is
  the list of its column names and the list of its rows, a row giving the cell of each
  column. A Spark cell is a typed value or null (\<^const>\<open>None\<close>); a Spark row gives
  null for a name that is not a column.
\<close>

record 'c frame =
  columns :: "string list"
  rows :: "(string \<Rightarrow> 'c) list"

datatype "value" = VString string | VInt int | VDouble double | VBool bool
  | VDate date | VTimestamp timestamp

type_synonym dataframe = "value option frame"

text \<open>\<^verbatim>\<open>df.count()\<close>, and the cells of one column from the first row to the last.\<close>

definition count :: "'c frame \<Rightarrow> nat" where
  "count df = length (rows df)"

definition column_values :: "string \<Rightarrow> 'c frame \<Rightarrow> 'c list" where
  "column_values c df = map (\<lambda>r. r c) (rows df)"

datatype error = AnalysisException string | KeyError string
  | NotFound string | AlreadyExists string

subsection \<open>The transformed tables as data frames\<close>

definition patient_row :: "patient \<Rightarrow> string \<Rightarrow> value option" where
  "patient_row r c =
     (if c = ''patient_id'' then map_option VString (p_patient_id r)
      else if c = ''first_name'' then map_option VString (p_first_name r)
      else if c = ''last_name'' then map_option VString (p_last_name r)
      else if c = ''date_of_birth'' then map_option VDate (p_date_of_birth r)
      else if c = ''gender'' then map_option VString (p_gender r)
      else if c = ''admission_date'' then map_option VTimestamp (p_admission_date r)
      else if c = ''discharge_date'' then map_option VTimestamp (p_discharge_date r)
      else if c = ''diagnosis'' then map_option VString (p_diagnosis r)
      else if c = ''created_at'' then map_option VTimestamp (p_created_at r)
      else if c = ''age_at_admission'' then map_option VInt (p_age_at_admission r)
      else if c = ''length_of_stay_days'' then map_option VInt (p_length_of_stay_days r)
      else if c = ''full_name'' then map_option VString (p_full_name r)
      else if c = ''has_valid_dates'' then Some (VBool (p_has_valid_dates r))
      else if c = ''has_valid_diagnosis'' then Some (VBool (p_has_valid_diagnosis r))
      else if c = ''processed_at'' then Some (VTimestamp (p_processed_at r))
      else None)"

definition patient_frame :: "patient list \<Rightarrow> dataframe" where
  "patient_frame df =
     \<lparr> columns = [''patient_id'', ''first_name'', ''last_name'', ''date_of_birth'', ''gender'',
         ''admission_date'', ''discharge_date'', ''diagnosis'', ''created_at'',
         ''age_at_admission'', ''length_of_stay_days'', ''full_name'', ''has_valid_dates'',
         ''has_valid_diagnosis'', ''processed_at''],
       rows = map patient_row df \<rparr>"

definition treatment_row :: "treatment \<Rightarrow> string \<Rightarrow> value option" where
  "treatment_row r c =
     (if c = ''treatment_id'' then map_option VString (t_treatment_id r)
      else if c = ''patient_id'' then map_option VString (t_patient_id r)
      else if c = ''treatment_type'' then map_option VString (t_treatment_type r)
      else if c = ''treatment_date'' then map_option VTimestamp (t_treatment_date r)
      else if c = ''doctor_name'' then map_option VString (t_doctor_name r)
      else if c = ''treatment_notes'' then map_option VString (t_treatment_notes r)
      else if c = ''cost'' then map_option VDouble (t_cost r)
      else if c = ''created_at'' then map_option VTimestamp (t_created_at r)
      else if c = ''treatment_year'' then map_option VInt (t_treatment_year r)
      else if c = ''treatment_month'' then map_option VInt (t_treatment_month r)
      else if c = ''treatment_day_of_week'' then map_option VInt (t_treatment_day_of_week r)
      else if c = ''cost_category'' then map_option VString (t_cost_category r)
      else if c = ''has_valid_cost'' then Some (VBool (t_has_valid_cost r))
      else if c = ''has_valid_doctor'' then Some (VBool (t_has_valid_doctor r))
      else if c = ''has_valid_treatment_type'' then Some (VBool (t_has_valid_treatment_type r))
      else if c = ''processed_at'' then Some (VTimestamp (t_processed_at r))
      else None)"

definition treatment_frame :: "treatment list \<Rightarrow> dataframe" where
  "treatment_frame df =
     \<lparr> columns = [''treatment_id'', ''patient_id'', ''treatment_type'', ''treatment_date'',
         ''doctor_name'', ''treatment_notes'', ''cost'', ''created_at'', ''treatment_year'',
         ''treatment_month'', ''treatment_day_of_week'', ''cost_category'', ''has_valid_cost'',
         ''has_valid_doctor'', ''has_valid_treatment_type'', ''processed_at''],
       rows = map treatment_row df \<rparr>"

definition analysis_row :: "analysis \<Rightarrow> string \<Rightarrow> value option" where
  "analysis_row r c =
     (if c = ''patient_id'' then map_option VString (a_patient_id r)
      else if c = ''age'' then map_option VInt (a_age r)
      else if c = ''gender'' then map_option VString (a_gender r)
      else if c = ''condition'' then map_option VString (a_condition r)
      else if c = ''procedure'' then map_option VString (a_procedure r)
      else if c = ''cost'' then map_option VDouble (a_cost r)
      else if c = ''length_of_stay'' then map_option VInt (a_length_of_stay r)
      else if c = ''readmission'' then map_option VString (a_readmission r)
      else if c = ''outcome'' then map_option VString (a_outcome r)
      else if c = ''satisfaction'' then map_option VInt (a_satisfaction r)
      else if c = ''created_at'' then map_option VTimestamp (a_created_at r)
      else None)"

text \<open>\<^verbatim>\<open>withColumn\<close> appends a new column, so \<^verbatim>\<open>created_at\<close> is the last one.\<close>

definition analysis_frame :: "analysis list \<Rightarrow> dataframe" where
  "analysis_frame df =
     \<lparr> columns = [''patient_id'', ''age'', ''gender'', ''condition'', ''procedure'', ''cost'',
         ''length_of_stay'', ''readmission'', ''outcome'', ''satisfaction'', ''created_at''],
       rows = map analysis_row df \<rparr>"

subsection \<open>\<^verbatim>\<open>validate_data\<close>\<close>

text \<open>
  \<^verbatim>\<open>df.filter(cond).count()\<close> for a condition that is a disjunction of
  \<^verbatim>\<open>col(c).isNull()\<close> over the columns \<open>cs\<close>. Spark resolves the columns when the
  filter is built and raises for a name the frame does not have.
\<close>

definition missing_column :: "dataframe \<Rightarrow> string list \<Rightarrow> string option" where
  "missing_column df cs = List.find (\<lambda>c. c \<notin> set (columns df)) cs"

definition count_null :: "dataframe \<Rightarrow> string list \<Rightarrow> error + nat" where
  "count_null df cs =
     (case missing_column df cs of
        Some c \<Rightarrow> Inl (AnalysisException c)
      | None \<Rightarrow> Inr (length (filter (\<lambda>r. \<exists>c \<in> set cs. r c = None) (rows df))))"

text \<open>
  \<^verbatim>\<open>df.groupBy(c).count().filter(col("count") > 1).count()\<close>: the number of distinct
  values of the column (null is a value of its own) that more than one row holds.
\<close>

definition duplicate_groups :: "'a list \<Rightarrow> nat" where
  "duplicate_groups keys = length (filter (\<lambda>k. 1 < count_list keys k) (remdups keys))"

definition count_duplicates :: "dataframe \<Rightarrow> string \<Rightarrow> error + nat" where
  "count_duplicates df c =
     (case missing_column df [c] of
        Some c' \<Rightarrow> Inl (AnalysisException c')
      | None \<Rightarrow> Inr (duplicate_groups (column_values c df)))"

text \<open>An exception ends the function: the rest is not run.\<close>

definition bind :: "error + 'a \<Rightarrow> ('a \<Rightarrow> error + 'b) \<Rightarrow> error + 'b" where
  "bind m f = (case m of Inl e \<Rightarrow> Inl e | Inr x \<Rightarrow> f x)"

text \<open>
  The function returns its verdict; what it logs is returned with it, one entry for
  each count it logs, in the order of the source.
\<close>

type_synonym log = "(string \<times> nat) list"

definition validate_data :: "dataframe \<Rightarrow> string \<Rightarrow> error + (log \<times> bool)" where
  "validate_data df data_type =
     (let total_records = count df;
          lg = [(''Total records to validate'', total_records)]
      in
      if data_type = ''patient'' then
        bind (count_null df [''patient_id'']) (\<lambda>null_patient_ids.
        bind (count_null df [''first_name'', ''last_name'']) (\<lambda>null_names.
        bind (count_null df [''admission_date'', ''discharge_date'']) (\<lambda>null_dates.
        bind (count_duplicates df ''patient_id'') (\<lambda>duplicate_patient_ids.
        let lg = lg @ [(''Records with null patient_id'', null_patient_ids),
                       (''Records with null names'', null_names),
                       (''Records with null dates'', null_dates),
                       (''Duplicate patient IDs'', duplicate_patient_ids)]
        in if null_patient_ids > 0 \<or> duplicate_patient_ids > 0
           then Inr (lg, False) else Inr (lg, True)))))
      else if data_type = ''treatment'' then
        bind (count_null df [''treatment_id'']) (\<lambda>null_treatment_ids.
        bind (count_null df [''patient_id'']) (\<lambda>null_patient_ids.
        bind (count_null df [''treatment_type'']) (\<lambda>null_treatment_types.
        bind (count_null df [''cost'']) (\<lambda>null_costs.
        bind (count_duplicates df ''treatment_id'') (\<lambda>duplicate_treatment_ids.
        let lg = lg @ [(''Records with null treatment_id'', null_treatment_ids),
                       (''Records with null patient_id'', null_patient_ids),
                       (''Records with null treatment_type'', null_treatment_types),
                       (''Records with null cost'', null_costs),
                       (''Duplicate treatment IDs'', duplicate_treatment_ids)]
        in if null_treatment_ids > 0 \<or> duplicate_treatment_ids > 0
           then Inr (lg, False) else Inr (lg, True))))))
      else if data_type = ''hospital_analysis'' then
        bind (count_null df [''patient_id'']) (\<lambda>null_patient_ids.
        bind (count_null df [''age'']) (\<lambda>null_ages.
        bind (count_null df [''gender'']) (\<lambda>null_genders.
        bind (count_null df [''condition'']) (\<lambda>null_conditions.
        bind (count_duplicates df ''patient_id'') (\<lambda>duplicate_patient_ids.
        let lg = lg @ [(''Records with null patient_id'', null_patient_ids),
                       (''Records with null age'', null_ages),
                       (''Records with null gender'', null_genders),
                       (''Records with null condition'', null_conditions),
                       (''Duplicate patient IDs'', duplicate_patient_ids)]
        in if null_patient_ids > 0 \<or> duplicate_patient_ids > 0
           then Inr (lg, False) else Inr (lg, True))))))
      else Inr (lg, True))"

text \<open>The columns that each branch of \<^verbatim>\<open>validate_data\<close> reads.\<close>

definition patient_checked :: "string list" where
  "patient_checked =
     [''patient_id'', ''first_name'', ''last_name'', ''admission_date'', ''discharge_date'']"

definition treatment_checked :: "string list" where
  "treatment_checked = [''treatment_id'', ''patient_id'', ''treatment_type'', ''cost'']"

definition analysis_checked :: "string list" where
  "analysis_checked = [''patient_id'', ''age'', ''gender'', ''condition'']"

subsection \<open>The warehouse\<close>

text \<open>
  Modelled from the spec: the load job of the warehouse, a service outside the
  repository, whose truncate-and-replace load the glossary of the specification
  describes (it deletes the existing contents of the table and inserts the new data as
  the sole contents, creating the table if absent). The programs choose the behaviour of
  the job with the two dispositions they pass to it, and the job is modelled after the
  documented meaning of the dispositions: a destination that does not exist is created
  under \<^verbatim>\<open>CREATE_IF_NEEDED\<close> and is an error under \<^verbatim>\<open>CREATE_NEVER\<close>; an existing
  destination is replaced under \<^verbatim>\<open>WRITE_TRUNCATE\<close>, extended under
  \<^verbatim>\<open>WRITE_APPEND\<close>, and under \<^verbatim>\<open>WRITE_EMPTY\<close> written only if it holds no row.
  Failures of the service itself (permissions, an unreachable staging bucket) are not
  modelled. The warehouse maps the three-part name of a table to its contents.
\<close>

datatype create_disposition = CREATE_IF_NEEDED | CREATE_NEVER

datatype write_disposition = WRITE_TRUNCATE | WRITE_APPEND | WRITE_EMPTY

type_synonym 'c warehouse = "string \<rightharpoonup> 'c frame"

definition load_job ::
  "create_disposition \<Rightarrow> write_disposition \<Rightarrow> string \<Rightarrow> 'c frame \<Rightarrow> 'c warehouse
     \<Rightarrow> error + 'c warehouse" where
  "load_job create_disp write_disp table_ref df wh =
     (case wh table_ref of
        None \<Rightarrow>
          (case create_disp of
             CREATE_IF_NEEDED \<Rightarrow> Inr (wh(table_ref \<mapsto> df))
           | CREATE_NEVER \<Rightarrow> Inl (NotFound table_ref))
      | Some old \<Rightarrow>
          (case write_disp of
             WRITE_TRUNCATE \<Rightarrow> Inr (wh(table_ref \<mapsto> df))
           | WRITE_APPEND \<Rightarrow> Inr (wh(table_ref \<mapsto> old\<lparr>rows := rows old @ rows df\<rparr>))
           | WRITE_EMPTY \<Rightarrow>
               if rows old = [] then Inr (wh(table_ref \<mapsto> df))
               else Inl (AlreadyExists table_ref)))"

text \<open>Reading a destination back: its contents, if it exists.\<close>

definition read_table :: "'c warehouse \<Rightarrow> string \<Rightarrow> 'c frame option" where
  "read_table wh table_ref = wh table_ref"

definition table_name :: "string \<Rightarrow> string \<Rightarrow> string \<Rightarrow> string" where
  "table_name project_id dataset_id table_id = project_id @ ''.'' @ dataset_id @ ''.'' @ table_id"

subsection \<open>\<^verbatim>\<open>write_to_bigquery\<close>\<close>

text \<open>
  \<^verbatim>\<open>df.select(...)\<close> keeps the named columns, in the order given, and raises for a
  name the frame does not have.
\<close>

definition select :: "string list \<Rightarrow> dataframe \<Rightarrow> error + dataframe" where
  "select cs df =
     (case missing_column df cs of
        Some c \<Rightarrow> Inl (AnalysisException c)
      | None \<Rightarrow>
          Inr \<lparr> columns = cs,
                rows = map (\<lambda>r c. if c \<in> set cs then r c else None) (rows df) \<rparr>)"

definition write_to_bigquery ::
  "dataframe \<Rightarrow> string \<Rightarrow> string \<Rightarrow> string \<Rightarrow> value option warehouse
     \<Rightarrow> error + value option warehouse" where
  "write_to_bigquery df project_id dataset_id table_id wh =
     bind
       (if table_id = ''patients'' then
          select [''patient_id'', ''first_name'', ''last_name'', ''date_of_birth'', ''gender'',
                  ''admission_date'', ''discharge_date'', ''diagnosis'', ''created_at''] df
        else if table_id = ''treatments'' then
          select [''treatment_id'', ''patient_id'', ''treatment_type'', ''treatment_date'',
                  ''doctor_name'', ''treatment_notes'', ''cost'', ''created_at''] df
        else if table_id = ''hospital_analysis'' then
          select [''patient_id'', ''age'', ''gender'', ''condition'', ''procedure'', ''cost'',
                  ''length_of_stay'', ''readmission'', ''outcome'', ''satisfaction'',
                  ''created_at''] df
        else Inr df)
       (\<lambda>df_to_write.
          load_job CREATE_IF_NEEDED WRITE_TRUNCATE
            (table_name project_id dataset_id table_id) df_to_write wh)"

text \<open>
  The columns that \<^verbatim>\<open>write_to_bigquery\<close> sends to the destination: the selection for
  the three known tables, every column of the frame for another table.
\<close>

definition persisted_columns :: "string \<Rightarrow> dataframe \<Rightarrow> string list" where
  "persisted_columns table_id df =
     (if table_id = ''patients'' then
        [''patient_id'', ''first_name'', ''last_name'', ''date_of_birth'', ''gender'',
         ''admission_date'', ''discharge_date'', ''diagnosis'', ''created_at'']
      else if table_id = ''treatments'' then
        [''treatment_id'', ''patient_id'', ''treatment_type'', ''treatment_date'',
         ''doctor_name'', ''treatment_notes'', ''cost'', ''created_at'']
      else if table_id = ''hospital_analysis'' then
        [''patient_id'', ''age'', ''gender'', ''condition'', ''procedure'', ''cost'',
         ''length_of_stay'', ''readmission'', ''outcome'', ''satisfaction'', ''created_at'']
      else columns df)"

section \<open>The single-process variant: \<^verbatim>\<open>etl_cloud_run.py\<close>\<close>

text \<open>
  A cell of a pandas frame is a number, text or a timestamp. The missing value of
  pandas is the number NaN, also in a column of text. \<^verbatim>\<open>pd.read_csv\<close> yields numbers
  and text; the timestamp is what \<^verbatim>\<open>datetime.now()\<close> puts into \<^verbatim>\<open>created_at\<close>.
\<close>

datatype pcell = PNum double | PStr string | PTime timestamp

text \<open>
  The parameters: the number that text denotes, if it denotes one, and the clock.
\<close>

record pandas_functions =
  parse_number :: "string \<Rightarrow> double option"
  now :: timestamp

definition isna :: "pcell \<Rightarrow> bool" where
  "isna c = (c = PNum NaN)"

text \<open>\<^verbatim>\<open>series.fillna(v)\<close>\<close>

definition fillna :: "pcell list \<Rightarrow> pcell \<Rightarrow> pcell list" where
  "fillna series v = map (\<lambda>c. if isna c then v else c) series"

text \<open>
  \<^verbatim>\<open>pd.to_numeric(series, errors="coerce")\<close>: a number stays, text becomes the number
  it denotes or NaN, a timestamp becomes its count since the epoch.
\<close>

definition to_numeric_cell :: "pandas_functions \<Rightarrow> pcell \<Rightarrow> pcell" where
  "to_numeric_cell P c =
     (case c of
        PNum x \<Rightarrow> PNum x
      | PStr s \<Rightarrow> (case parse_number P s of None \<Rightarrow> PNum NaN | Some x \<Rightarrow> PNum x)
      | PTime t \<Rightarrow> PNum (Finite (real_of_int t)))"

definition to_numeric :: "pandas_functions \<Rightarrow> pcell list \<Rightarrow> pcell list" where
  "to_numeric P series = map (to_numeric_cell P) series"

text \<open>\<^verbatim>\<open>df[c]\<close> raises \<^verbatim>\<open>KeyError\<close> for a name that is not a column.\<close>

definition getitem :: "'c frame \<Rightarrow> string \<Rightarrow> error + 'c list" where
  "getitem df c = (if c \<in> set (columns df) then Inr (column_values c df) else Inl (KeyError c))"

text \<open>
  \<^verbatim>\<open>df[c] = series\<close> overwrites the column, or appends it when the frame has none of
  that name; \<^verbatim>\<open>df[c] = v\<close> for a single value \<open>v\<close> puts it into every row.
\<close>

definition setitem :: "'c frame \<Rightarrow> string \<Rightarrow> 'c list \<Rightarrow> 'c frame" where
  "setitem df c series =
     \<lparr> columns = (if c \<in> set (columns df) then columns df else columns df @ [c]),
       rows = map (\<lambda>(r, v). r(c := v)) (zip (rows df) series) \<rparr>"

definition setitem_scalar :: "'c frame \<Rightarrow> string \<Rightarrow> 'c \<Rightarrow> 'c frame" where
  "setitem_scalar df c v = setitem df c (replicate (length (rows df)) v)"

text \<open>
  The three functions take the frame that \<^verbatim>\<open>pd.read_csv\<close> returned and update it
  statement by statement.
\<close>

definition process_patient_data :: "pandas_functions \<Rightarrow> pcell frame \<Rightarrow> error + pcell frame" where
  "process_patient_data P df0 =
     (let df = setitem_scalar df0 ''created_at'' (PTime (now P)) in
      bind (getitem df ''age'') (\<lambda>age.
      let df = setitem df ''age'' (fillna (to_numeric P age) (PNum (Finite 0))) in
      bind (getitem df ''gender'') (\<lambda>gender.
      let df = setitem df ''gender'' (fillna gender (PStr ''Unknown'')) in
      bind (getitem df ''condition'') (\<lambda>condition.
      let df = setitem df ''condition'' (fillna condition (PStr ''Unknown'')) in
      Inr df))))"

definition process_treatment_data :: "pandas_functions \<Rightarrow> pcell frame \<Rightarrow> error + pcell frame" where
  "process_treatment_data P df0 =
     (let df = setitem_scalar df0 ''created_at'' (PTime (now P)) in
      bind (getitem df ''cost'') (\<lambda>cost.
      let df = setitem df ''cost'' (fillna (to_numeric P cost) (PNum (Finite 0))) in
      bind (getitem df ''duration_days'') (\<lambda>duration_days.
      let df = setitem df ''duration_days'' (fillna (to_numeric P duration_days) (PNum (Finite 0))) in
      bind (getitem df ''treatment_type'') (\<lambda>treatment_type.
      let df = setitem df ''treatment_type'' (fillna treatment_type (PStr ''Unknown'')) in
      Inr df))))"

definition process_hospital_analysis_data ::
  "pandas_functions \<Rightarrow> pcell frame \<Rightarrow> error + pcell frame" where
  "process_hospital_analysis_data P df0 =
     (let df = setitem_scalar df0 ''created_at'' (PTime (now P)) in
      bind (getitem df ''age'') (\<lambda>age.
      let df = setitem df ''age'' (fillna (to_numeric P age) (PNum (Finite 0))) in
      bind (getitem df ''cost'') (\<lambda>cost.
      let df = setitem df ''cost'' (fillna (to_numeric P cost) (PNum (Finite 0))) in
      bind (getitem df ''length_of_stay'') (\<lambda>length_of_stay.
      let df = setitem df ''length_of_stay'' (fillna (to_numeric P length_of_stay) (PNum (Finite 0))) in
      bind (getitem df ''satisfaction'') (\<lambda>satisfaction.
      let df = setitem df ''satisfaction'' (fillna (to_numeric P satisfaction) (PNum (Finite 3))) in
      bind (getitem df ''gender'') (\<lambda>gender.
      let df = setitem df ''gender'' (fillna gender (PStr ''Unknown'')) in
      bind (getitem df ''condition'') (\<lambda>condition.
      let df = setitem df ''condition'' (fillna condition (PStr ''Unknown'')) in
      bind (getitem df ''procedure'') (\<lambda>procedure.
      let df = setitem df ''procedure'' (fillna procedure (PStr ''Unknown'')) in
      bind (getitem df ''outcome'') (\<lambda>outcome.
      let df = setitem df ''outcome'' (fillna outcome (PStr ''Unknown'')) in
      bind (getitem df ''readmission'') (\<lambda>readmission.
      let df = setitem df ''readmission'' (fillna readmission (PStr ''No'')) in
      Inr df))))))))))"

text \<open>\<^verbatim>\<open>upload_to_bigquery\<close> loads the whole frame with the same two dispositions.\<close>

definition upload_to_bigquery ::
  "pcell frame \<Rightarrow> string \<Rightarrow> string \<Rightarrow> string \<Rightarrow> pcell warehouse \<Rightarrow> error + pcell warehouse" where
  "upload_to_bigquery df project_id dataset_id table_id wh =
     load_job CREATE_IF_NEEDED WRITE_TRUNCATE (table_name project_id dataset_id table_id) df wh"

text \<open>
  The columns each function reads, and what its statements do to one cell:
  \<^verbatim>\<open>pd.to_numeric(..., errors="coerce").fillna(d)\<close> and \<^verbatim>\<open>fillna(d)\<close> with a text.
\<close>

definition patient_inputs :: "string list" where
  "patient_inputs = [''age'', ''gender'', ''condition'']"

definition treatment_inputs :: "string list" where
  "treatment_inputs = [''cost'', ''duration_days'', ''treatment_type'']"

definition analysis_inputs :: "string list" where
  "analysis_inputs = [''age'', ''cost'', ''length_of_stay'', ''satisfaction'', ''gender'',
     ''condition'', ''procedure'', ''outcome'', ''readmission'']"

definition fill_number :: "pandas_functions \<Rightarrow> real \<Rightarrow> pcell \<Rightarrow> pcell" where
  "fill_number P d c =
     (if isna (to_numeric_cell P c) then PNum (Finite d) else to_numeric_cell P c)"

definition fill_text :: "string \<Rightarrow> pcell \<Rightarrow> pcell" where
  "fill_text d c = (if isna c then PStr d else c)"

text \<open>A cell that holds a number and not the missing value.\<close>

definition is_number :: "pcell \<Rightarrow> bool" where
  "is_number c = (case c of PNum x \<Rightarrow> x \<noteq> NaN | PStr s \<Rightarrow> False | PTime t \<Rightarrow> False)"

section \<open>Example inputs\<close>

text \<open>
  An instance of the Spark functions that reads the texts of the examples, with the
  calendar of the dates they denote (UTC, Sunday is day 1 of the week).
\<close>

definition example_sql :: sql_functions where
  "example_sql =
     \<lparr> to_date = (\<lambda>s. if s = ''1980-05-17'' then Some 3789 else None),
       to_timestamp = (\<lambda>s. if s = ''2024-01-10 08:00:00'' then Some 1704873600000000
                            else if s = ''2024-01-15 12:00:00'' then Some 1705320000000000
                            else None),
       cast_double = (\<lambda>s. if s = ''5000'' then Some (Finite 5000)
                           else if s = ''999'' then Some (Finite 999)
                           else if s = ''50'' then Some (Finite 50)
                           else None),
       cast_date = (\<lambda>t. t div 86400000000),
       year = (\<lambda>d. if d = 3789 then 1980 else 2024),
       month = (\<lambda>d. if d = 3789 then 5 else 1),
       dayofweek = (\<lambda>d. if d = 3789 then 7 else if d = 19732 then 4 else 2),
       current_timestamp = 1730678400000000 \<rparr>"

text \<open>
  The scenario of the specification for the hospital-analysis table: one row without a
  gender, one row with the age 200 (and values below the other ranges).
\<close>

definition analysis_example :: "analysis_csv list" where
  "analysis_example =
     [\<lparr> ra_patient_id = Some ''P001'', ra_age = Some 34, ra_gender = None,
        ra_condition = Some ''Flu'', ra_procedure = None, ra_cost = Some (Finite 1200),
        ra_length_of_stay = Some 2, ra_readmission = None, ra_outcome = Some ''Recovered'',
        ra_satisfaction = None \<rparr>,
      \<lparr> ra_patient_id = Some ''P002'', ra_age = Some 200, ra_gender = Some ''F'',
        ra_condition = None, ra_procedure = Some ''MRI'', ra_cost = Some (Finite (- 250)),
        ra_length_of_stay = Some (- 3), ra_readmission = Some ''Yes'', ra_outcome = None,
        ra_satisfaction = Some 9 \<rparr>]"

text \<open>The same two rows as \<^verbatim>\<open>pd.read_csv\<close> returns them.\<close>

definition example_pandas :: pandas_functions where
  "example_pandas = \<lparr> parse_number = (\<lambda>s. None), now = 1730678400000000000 \<rparr>"

definition analysis_frame_example :: "pcell frame" where
  "analysis_frame_example =
     \<lparr> columns = [''patient_id'', ''age'', ''gender'', ''condition'', ''procedure'', ''cost'',
         ''length_of_stay'', ''readmission'', ''outcome'', ''satisfaction''],
       rows =
         [(\<lambda>c. PNum NaN)
            (''patient_id'' := PStr ''P001'', ''age'' := PNum (Finite 34),
             ''condition'' := PStr ''Flu'', ''cost'' := PNum (Finite 1200),
             ''length_of_stay'' := PNum (Finite 2), ''outcome'' := PStr ''Recovered''),
          (\<lambda>c. PNum NaN)
            (''patient_id'' := PStr ''P002'', ''age'' := PNum (Finite 200),
             ''gender'' := PStr ''F'', ''procedure'' := PStr ''MRI'',
             ''cost'' := PNum (Finite (- 250)), ''length_of_stay'' := PNum (Finite (- 3)),
             ''readmission'' := PStr ''Yes'', ''satisfaction'' := PNum (Finite 9))] \<rparr>"

text \<open>
  Treatments with the costs 5000, 999 and 50 of the specification, one without a cost
  and one whose cost is not a number.
\<close>

definition treatment_example :: "treatment_csv list" where
  "treatment_example =
     [\<lparr> rt_treatment_id = Some ''T001'', rt_patient_id = Some ''P001'',
        rt_treatment_type = Some ''Surgery'', rt_treatment_date = Some ''2024-01-10 08:00:00'',
        rt_doctor_name = Some ''Dr. Lee'', rt_treatment_notes = None, rt_cost = Some ''5000'',
        rt_created_at = Some ''2024-01-15 12:00:00'' \<rparr>,
      \<lparr> rt_treatment_id = Some ''T002'', rt_patient_id = Some ''P001'',
        rt_treatment_type = Some ''Therapy'', rt_treatment_date = Some ''2024-01-15 12:00:00'',
        rt_doctor_name = Some ''Dr. Lee'', rt_treatment_notes = None, rt_cost = Some ''999'',
        rt_created_at = Some ''2024-01-15 12:00:00'' \<rparr>,
      \<lparr> rt_treatment_id = Some ''T003'', rt_patient_id = Some ''P002'',
        rt_treatment_type = Some ''Checkup'', rt_treatment_date = None,
        rt_doctor_name = Some [], rt_treatment_notes = None, rt_cost = Some ''50'',
        rt_created_at = Some ''2024-01-15 12:00:00'' \<rparr>,
      \<lparr> rt_treatment_id = Some ''T004'', rt_patient_id = Some ''P002'',
        rt_treatment_type = None, rt_treatment_date = None,
        rt_doctor_name = None, rt_treatment_notes = None, rt_cost = None,
        rt_created_at = None \<rparr>,
      \<lparr> rt_treatment_id = Some ''T005'', rt_patient_id = Some ''P003'',
        rt_treatment_type = Some ''Checkup'', rt_treatment_date = None,
        rt_doctor_name = None, rt_treatment_notes = None, rt_cost = Some ''n/a'',
        rt_created_at = None \<rparr>]"

text \<open>Patients: a complete row, and a row without a first name and without dates.\<close>

definition patient_example :: "patient_csv list" where
  "patient_example =
     [\<lparr> rp_patient_id = Some ''P001'', rp_first_name = Some ''Ann'', rp_last_name = Some ''Lee'',
        rp_date_of_birth = Some ''1980-05-17'', rp_gender = Some ''F'',
        rp_admission_date = Some ''2024-01-10 08:00:00'',
        rp_discharge_date = Some ''2024-01-15 12:00:00'', rp_diagnosis = Some ''Flu'',
        rp_created_at = Some ''2024-01-15 12:00:00'' \<rparr>,
      \<lparr> rp_patient_id = Some ''P002'', rp_first_name = None, rp_last_name = Some ''Ray'',
        rp_date_of_birth = None, rp_gender = None, rp_admission_date = None,
        rp_discharge_date = Some ''yesterday'', rp_diagnosis = None,
        rp_created_at = None \<rparr>]"

text \<open>A patient table in which the first patient is read twice.\<close>

definition patient_duplicate_example :: "patient_csv list" where
  "patient_duplicate_example = patient_example @ [hd patient_example]"

text \<open>Frames with the columns that the single-process variant reads.\<close>

definition patients_csv_example :: "pcell frame" where
  "patients_csv_example =
     \<lparr> columns = [''patient_id'', ''age'', ''gender'', ''condition''],
       rows =
         [(\<lambda>c. PNum NaN)
            (''patient_id'' := PStr ''P001'', ''age'' := PNum (Finite 34),
             ''gender'' := PStr ''F'', ''condition'' := PStr ''Flu''),
          (\<lambda>c. PNum NaN)
            (''patient_id'' := PStr ''P002'', ''age'' := PStr ''unknown'')] \<rparr>"

definition treatments_csv_example :: "pcell frame" where
  "treatments_csv_example =
     \<lparr> columns = [''treatment_id'', ''patient_id'', ''treatment_type'', ''cost'',
         ''duration_days''],
       rows =
         [(\<lambda>c. PNum NaN)
            (''treatment_id'' := PStr ''T001'', ''patient_id'' := PStr ''P001'',
             ''treatment_type'' := PStr ''Surgery'', ''cost'' := PNum (Finite 5000),
             ''duration_days'' := PNum (Finite 3)),
          (\<lambda>c. PNum NaN)
            (''treatment_id'' := PStr ''T002'', ''patient_id'' := PStr ''P002'',
             ''cost'' := PStr ''n/a'')] \<rparr>"

section \<open>Properties of the frame operations\<close>

lemma length_fillna: "length (fillna s v) = length s"
  by (simp add: fillna_def)

lemma length_to_numeric: "length (to_numeric P s) = length s"
  by (simp add: to_numeric_def)

lemma length_column_values: "length (column_values c df) = length (rows df)"
  by (simp add: column_values_def)

lemma rows_setitem_length:
  "length s = length (rows df) \<Longrightarrow> length (rows (setitem df c s)) = length (rows df)"
  by (simp add: setitem_def)

lemma map_zip_update:
  "length xs = length s \<Longrightarrow>
     map (\<lambda>(r, y). (r(c := y)) c') (zip xs s) = (if c' = c then s else map (\<lambda>r. r c') xs)"
  by (induction xs s rule: list_induct2) auto

lemma column_values_setitem:
  "length s = length (rows df) \<Longrightarrow>
     column_values c' (setitem df c s) = (if c' = c then s else column_values c' df)"
  using map_zip_update [of "rows df" s c c']
  by (simp add: setitem_def column_values_def o_def case_prod_unfold)

lemma set_columns_setitem: "set (columns (setitem df c s)) = insert c (set (columns df))"
  by (auto simp: setitem_def)

lemma setitem_scalar_props:
  "length (rows (setitem_scalar df c v)) = length (rows df)"
  "set (columns (setitem_scalar df c v)) = insert c (set (columns df))"
  "column_values c' (setitem_scalar df c v) =
     (if c' = c then replicate (length (rows df)) v else column_values c' df)"
  by (simp_all add: setitem_scalar_def rows_setitem_length column_values_setitem
      set_columns_setitem)

lemmas frame_steps = length_fillna length_to_numeric length_column_values rows_setitem_length
  column_values_setitem set_columns_setitem setitem_scalar_props

lemma fillna_to_numeric: "fillna (to_numeric P s) (PNum (Finite d)) = map (fill_number P d) s"
  by (simp add: fillna_def to_numeric_def fill_number_def)

lemma fillna_text: "fillna s (PStr d) = map (fill_text d) s"
  by (simp add: fillna_def fill_text_def)

lemma fill_number_is_number: "\<exists>x. fill_number P d c = PNum x \<and> x \<noteq> NaN"
  by (auto simp: fill_number_def isna_def to_numeric_cell_def split: pcell.splits option.splits)

subsection \<open>What \<^verbatim>\<open>process_hospital_analysis_data\<close> returns\<close>

lemma process_hospital_analysis_data_Inr:
  assumes "process_hospital_analysis_data P df0 = Inr df"
  shows "length (rows df) = length (rows df0)"
    and "set (columns df) = insert ''created_at'' (set (columns df0))"
    and "column_values ''age'' df = map (fill_number P 0) (column_values ''age'' df0)"
    and "column_values ''cost'' df = map (fill_number P 0) (column_values ''cost'' df0)"
    and "column_values ''length_of_stay'' df =
           map (fill_number P 0) (column_values ''length_of_stay'' df0)"
    and "column_values ''satisfaction'' df =
           map (fill_number P 3) (column_values ''satisfaction'' df0)"
    and "column_values ''gender'' df = map (fill_text ''Unknown'') (column_values ''gender'' df0)"
    and "column_values ''condition'' df =
           map (fill_text ''Unknown'') (column_values ''condition'' df0)"
    and "column_values ''procedure'' df =
           map (fill_text ''Unknown'') (column_values ''procedure'' df0)"
    and "column_values ''outcome'' df = map (fill_text ''Unknown'') (column_values ''outcome'' df0)"
    and "column_values ''readmission'' df =
           map (fill_text ''No'') (column_values ''readmission'' df0)"
    and "column_values ''created_at'' df = replicate (length (rows df0)) (PTime (now P))"
    and "c \<notin> set (''created_at'' # analysis_inputs) \<Longrightarrow>
           column_values c df = column_values c df0"
  using assms
  by (auto simp: process_hospital_analysis_data_def bind_def getitem_def Let_def frame_steps
      analysis_inputs_def fillna_to_numeric [symmetric] fillna_text [symmetric]
      split: if_splits)

lemma process_hospital_analysis_data_returns:
  "(\<exists>df. process_hospital_analysis_data P df0 = Inr df) =
     (set analysis_inputs \<subseteq> set (columns df0))"
  by (auto simp: process_hospital_analysis_data_def bind_def getitem_def Let_def frame_steps
      analysis_inputs_def split: if_splits)

subsection \<open>What \<^verbatim>\<open>process_patient_data\<close> and \<^verbatim>\<open>process_treatment_data\<close> return\<close>

lemma process_patient_data_Inr:
  assumes "process_patient_data P df0 = Inr df"
  shows "length (rows df) = length (rows df0)"
    and "set (columns df) = insert ''created_at'' (set (columns df0))"
    and "column_values ''age'' df = map (fill_number P 0) (column_values ''age'' df0)"
    and "column_values ''gender'' df = map (fill_text ''Unknown'') (column_values ''gender'' df0)"
    and "column_values ''condition'' df =
           map (fill_text ''Unknown'') (column_values ''condition'' df0)"
    and "column_values ''created_at'' df = replicate (length (rows df0)) (PTime (now P))"
    and "c \<notin> set (''created_at'' # patient_inputs) \<Longrightarrow>
           column_values c df = column_values c df0"
  using assms
  by (auto simp: process_patient_data_def bind_def getitem_def Let_def frame_steps
      patient_inputs_def fillna_to_numeric [symmetric] fillna_text [symmetric]
      split: if_splits)

lemma process_patient_data_returns:
  "(\<exists>df. process_patient_data P df0 = Inr df) = (set patient_inputs \<subseteq> set (columns df0))"
  by (auto simp: process_patient_data_def bind_def getitem_def Let_def frame_steps
      patient_inputs_def split: if_splits)

lemma process_treatment_data_Inr:
  assumes "process_treatment_data P df0 = Inr df"
  shows "length (rows df) = length (rows df0)"
    and "set (columns df) = insert ''created_at'' (set (columns df0))"
    and "column_values ''cost'' df = map (fill_number P 0) (column_values ''cost'' df0)"
    and "column_values ''duration_days'' df =
           map (fill_number P 0) (column_values ''duration_days'' df0)"
    and "column_values ''treatment_type'' df =
           map (fill_text ''Unknown'') (column_values ''treatment_type'' df0)"
    and "column_values ''created_at'' df = replicate (length (rows df0)) (PTime (now P))"
    and "c \<notin> set (''created_at'' # treatment_inputs) \<Longrightarrow>
           column_values c df = column_values c df0"
  using assms
  by (auto simp: process_treatment_data_def bind_def getitem_def Let_def frame_steps
      treatment_inputs_def fillna_to_numeric [symmetric] fillna_text [symmetric]
      split: if_splits)

lemma process_treatment_data_returns:
  "(\<exists>df. process_treatment_data P df0 = Inr df) =
     (set treatment_inputs \<subseteq> set (columns df0))"
  by (auto simp: process_treatment_data_def bind_def getitem_def Let_def frame_steps
      treatment_inputs_def split: if_splits)

lemma fill_number_number: "is_number (fill_number P d c)"
  by (auto simp: is_number_def fill_number_def isna_def to_numeric_cell_def
      split: pcell.splits option.splits)

lemma analysis_example_columns: "set analysis_inputs \<subseteq> set (columns analysis_frame_example)"
  by (simp add: analysis_inputs_def analysis_frame_example_def)

lemma analysis_example_returns:
  "\<exists>df. process_hospital_analysis_data example_pandas analysis_frame_example = Inr df"
  using process_hospital_analysis_data_returns analysis_example_columns by blast

section \<open>The ranges of the hospital-analysis table\<close>

text \<open>
  The distributed variant does what the specification says of the table. Every age of
  the transformed table is present and lies between 0 and 120: a null age becomes 0, an
  age below 0 becomes 0, an age above 120 becomes 120 and every other age is kept; a
  missing gender becomes \<^verbatim>\<open>Unknown\<close>.
\<close>

lemma transform_analysis_age_range:
  "(\<forall>r \<in> set (transform_hospital_analysis_data F df).
      \<exists>a. a_age r = Some a \<and> 0 \<le> a \<and> a \<le> 120)
   \<and> map a_age (transform_hospital_analysis_data F df) =
       map (\<lambda>r. Some (case ra_age r of None \<Rightarrow> 0 | Some a \<Rightarrow> max 0 (min 120 a))) df
   \<and> map a_gender (transform_hospital_analysis_data F df) =
       map (\<lambda>r. Some (case ra_gender r of None \<Rightarrow> ''Unknown'' | Some g \<Rightarrow> g)) df"
proof (intro conjI)
  show "\<forall>r \<in> set (transform_hospital_analysis_data F df).
      \<exists>a. a_age r = Some a \<and> 0 \<le> a \<and> a \<le> 120"
    by (auto simp: transform_hospital_analysis_data_def transform_hospital_analysis_row_def
        age_column_def split: option.split)
  show "map a_age (transform_hospital_analysis_data F df) =
       map (\<lambda>r. Some (case ra_age r of None \<Rightarrow> 0 | Some a \<Rightarrow> max 0 (min 120 a))) df"
    by (auto simp: transform_hospital_analysis_data_def transform_hospital_analysis_row_def
        age_column_def split: option.split)
  show "map a_gender (transform_hospital_analysis_data F df) =
       map (\<lambda>r. Some (case ra_gender r of None \<Rightarrow> ''Unknown'' | Some g \<Rightarrow> g)) df"
    by (auto simp: transform_hospital_analysis_data_def transform_hospital_analysis_row_def
        fill_null_def split: option.split)
qed

text \<open>
  Every satisfaction of the transformed table is present and lies between 1 and 5: the
  value is the clamp to the range of the input with 3 put in for a null first, so a null
  becomes exactly 3, a value below 1 becomes 1 and a value above 5 becomes 5.
\<close>

lemma transform_analysis_satisfaction_range:
  "(\<forall>r \<in> set (transform_hospital_analysis_data F df).
      \<exists>s. a_satisfaction r = Some s \<and> 1 \<le> s \<and> s \<le> 5)
   \<and> map a_satisfaction (transform_hospital_analysis_data F df) =
       map (\<lambda>r. Some (max 1 (min 5 (case ra_satisfaction r of None \<Rightarrow> 3 | Some s \<Rightarrow> s)))) df
   \<and> satisfaction_column None = Some 3"
proof (intro conjI)
  show "\<forall>r \<in> set (transform_hospital_analysis_data F df).
      \<exists>s. a_satisfaction r = Some s \<and> 1 \<le> s \<and> s \<le> 5"
    by (auto simp: transform_hospital_analysis_data_def transform_hospital_analysis_row_def
        satisfaction_column_def split: option.split)
  show "map a_satisfaction (transform_hospital_analysis_data F df) =
       map (\<lambda>r. Some (max 1 (min 5 (case ra_satisfaction r of None \<Rightarrow> 3 | Some s \<Rightarrow> s)))) df"
    by (auto simp: transform_hospital_analysis_data_def transform_hospital_analysis_row_def
        satisfaction_column_def split: option.split)
  show "satisfaction_column None = Some 3"
    by (simp add: satisfaction_column_def)
qed

text \<open>
  Every length of stay of the transformed table is present and at least 0. Every cost is
  present and is a number that is at least 0, or positive infinity, or NaN: a null cost
  and a cost below 0 (negative infinity included) become 0, and every other cost is kept.
  Spark orders NaN above every number, so the test \<^verbatim>\<open>col("cost") < 0\<close> is false for
  it and a NaN that the reader delivers stays NaN.
\<close>

lemma transform_analysis_cost_stay_nonnegative:
  "(\<forall>r \<in> set (transform_hospital_analysis_data F df).
      (\<exists>x. a_cost r = Some x \<and> (x = NaN \<or> x = PosInf \<or> (\<exists>y. x = Finite y \<and> 0 \<le> y)))
      \<and> (\<exists>n. a_length_of_stay r = Some n \<and> 0 \<le> n))
   \<and> map a_cost (transform_hospital_analysis_data F df) =
       map (\<lambda>r. Some (case ra_cost r of
                        None \<Rightarrow> Finite 0
                      | Some NegInf \<Rightarrow> Finite 0
                      | Some (Finite y) \<Rightarrow> Finite (max 0 y)
                      | Some PosInf \<Rightarrow> PosInf
                      | Some NaN \<Rightarrow> NaN)) df
   \<and> map a_length_of_stay (transform_hospital_analysis_data F df) =
       map (\<lambda>r. Some (case ra_length_of_stay r of None \<Rightarrow> 0 | Some n \<Rightarrow> max 0 n)) df"
proof (intro conjI)
  have c: "cost_column c =
      Some (case c of
              None \<Rightarrow> Finite 0
            | Some NegInf \<Rightarrow> Finite 0
            | Some (Finite y) \<Rightarrow> Finite (max 0 y)
            | Some PosInf \<Rightarrow> PosInf
            | Some NaN \<Rightarrow> NaN)" for c
    by (simp add: cost_column_def double_lt_def max_def split: option.split double.split)
  show "map a_cost (transform_hospital_analysis_data F df) =
       map (\<lambda>r. Some (case ra_cost r of
                        None \<Rightarrow> Finite 0
                      | Some NegInf \<Rightarrow> Finite 0
                      | Some (Finite y) \<Rightarrow> Finite (max 0 y)
                      | Some PosInf \<Rightarrow> PosInf
                      | Some NaN \<Rightarrow> NaN)) df"
    by (simp add: transform_hospital_analysis_data_def transform_hospital_analysis_row_def c)
  show "\<forall>r \<in> set (transform_hospital_analysis_data F df).
      (\<exists>x. a_cost r = Some x \<and> (x = NaN \<or> x = PosInf \<or> (\<exists>y. x = Finite y \<and> 0 \<le> y)))
      \<and> (\<exists>n. a_length_of_stay r = Some n \<and> 0 \<le> n)"
    by (auto simp: transform_hospital_analysis_data_def transform_hospital_analysis_row_def c
        length_of_stay_column_def split: option.split double.split)
  show "map a_length_of_stay (transform_hospital_analysis_data F df) =
       map (\<lambda>r. Some (case ra_length_of_stay r of None \<Rightarrow> 0 | Some n \<Rightarrow> max 0 n)) df"
    by (auto simp: transform_hospital_analysis_data_def transform_hospital_analysis_row_def
        length_of_stay_column_def split: option.split)
qed

text \<open>
  The single-process variant loads the same table and has none of the three clamps:
  \<^verbatim>\<open>process_hospital_analysis_data\<close> coerces each numeric column and fills what is
  missing, and that is all. The three theorems below run both variants on the two rows of
  the example, in which the second row has the age 200, the satisfaction 9, the cost -250
  and the length of stay -3.
\<close>

text \<open>
  C1. On the example the single-process variant returns the age 200, which is above 120;
  the distributed variant returns 120 for the same row. (The single-process variant does
  fill the missing gender with \<^verbatim>\<open>Unknown\<close>.)
\<close>

theorem process_analysis_age_unclamped:
  "map_sum id (\<lambda>df. (column_values ''age'' df, column_values ''gender'' df))
     (process_hospital_analysis_data example_pandas analysis_frame_example) =
     Inr ([PNum (Finite 34), PNum (Finite 200)], [PStr ''Unknown'', PStr ''F''])
   \<and> map (\<lambda>r. (a_age r, a_gender r))
       (transform_hospital_analysis_data example_sql analysis_example) =
     [(Some 34, Some ''Unknown''), (Some 120, Some ''F'')]"
proof -
  obtain df where
    df: "process_hospital_analysis_data example_pandas analysis_frame_example = Inr df"
    using analysis_example_returns by blast
  have "column_values ''age'' df = [PNum (Finite 34), PNum (Finite 200)]"
    using process_hospital_analysis_data_Inr(3) [OF df]
    by (simp add: column_values_def analysis_frame_example_def fill_number_def
        to_numeric_cell_def isna_def)
  moreover have "column_values ''gender'' df = [PStr ''Unknown'', PStr ''F'']"
    using process_hospital_analysis_data_Inr(7) [OF df]
    by (simp add: column_values_def analysis_frame_example_def fill_text_def isna_def)
  moreover have "map (\<lambda>r. (a_age r, a_gender r))
       (transform_hospital_analysis_data example_sql analysis_example) =
     [(Some 34, Some ''Unknown''), (Some 120, Some ''F'')]"
    by (simp add: transform_hospital_analysis_data_def transform_hospital_analysis_row_def
        analysis_example_def age_column_def fill_null_def)
  ultimately show ?thesis by (simp add: df)
qed

text \<open>
  C2. On the example the single-process variant fills the missing satisfaction with 3 and
  returns the satisfaction 9, which is above 5; the distributed variant returns 5 for the
  same row.
\<close>

theorem process_analysis_satisfaction_unclamped:
  "map_sum id (column_values ''satisfaction'')
     (process_hospital_analysis_data example_pandas analysis_frame_example) =
     Inr [PNum (Finite 3), PNum (Finite 9)]
   \<and> map a_satisfaction (transform_hospital_analysis_data example_sql analysis_example) =
     [Some 3, Some 5]"
proof -
  obtain df where
    df: "process_hospital_analysis_data example_pandas analysis_frame_example = Inr df"
    using analysis_example_returns by blast
  have "column_values ''satisfaction'' df = [PNum (Finite 3), PNum (Finite 9)]"
    using process_hospital_analysis_data_Inr(6) [OF df]
    by (simp add: column_values_def analysis_frame_example_def fill_number_def
        to_numeric_cell_def isna_def)
  moreover have
    "map a_satisfaction (transform_hospital_analysis_data example_sql analysis_example) =
       [Some 3, Some 5]"
    by (simp add: transform_hospital_analysis_data_def transform_hospital_analysis_row_def
        analysis_example_def satisfaction_column_def)
  ultimately show ?thesis by (simp add: df)
qed

text \<open>
  C3. On the example the single-process variant returns the cost -250 and the length of
  stay -3, which are below 0; the distributed variant returns 0 for both.
\<close>

theorem process_analysis_cost_unclamped:
  "map_sum id (\<lambda>df. (column_values ''cost'' df, column_values ''length_of_stay'' df))
     (process_hospital_analysis_data example_pandas analysis_frame_example) =
     Inr ([PNum (Finite 1200), PNum (Finite (- 250))], [PNum (Finite 2), PNum (Finite (- 3))])
   \<and> map (\<lambda>r. (a_cost r, a_length_of_stay r))
       (transform_hospital_analysis_data example_sql analysis_example) =
     [(Some (Finite 1200), Some 2), (Some (Finite 0), Some 0)]"
proof -
  obtain df where
    df: "process_hospital_analysis_data example_pandas analysis_frame_example = Inr df"
    using analysis_example_returns by blast
  have "column_values ''cost'' df = [PNum (Finite 1200), PNum (Finite (- 250))]"
    using process_hospital_analysis_data_Inr(4) [OF df]
    by (simp add: column_values_def analysis_frame_example_def fill_number_def
        to_numeric_cell_def isna_def)
  moreover have "column_values ''length_of_stay'' df = [PNum (Finite 2), PNum (Finite (- 3))]"
    using process_hospital_analysis_data_Inr(5) [OF df]
    by (simp add: column_values_def analysis_frame_example_def fill_number_def
        to_numeric_cell_def isna_def)
  moreover have "map (\<lambda>r. (a_cost r, a_length_of_stay r))
       (transform_hospital_analysis_data example_sql analysis_example) =
     [(Some (Finite 1200), Some 2), (Some (Finite 0), Some 0)]"
    by (simp add: transform_hospital_analysis_data_def transform_hospital_analysis_row_def
        analysis_example_def cost_column_def length_of_stay_column_def double_lt_def)
  ultimately show ?thesis by (simp add: df)
qed

section \<open>The treatment and patient transformations\<close>

lemma cost_category_double:
  "cost_category (Some c) =
     (if double_le (Finite 5000) c then ''High Cost''
      else if double_le (Finite 1000) c then ''Medium Cost''
      else if double_le (Finite 100) c then ''Low Cost''
      else ''Minimal Cost'')"
  by (simp add: cost_category_def ge_def is_true_def double_ge_def)

text \<open>
  C4. In every row of the transformed treatment table the cost category is a function of
  the transformed cost of that row alone. The function tests the thresholds in order:
  a cost of at least 5000 is \<^verbatim>\<open>High Cost\<close>, else a cost of at least 1000 is
  \<^verbatim>\<open>Medium Cost\<close>, else a cost of at least 100 is \<^verbatim>\<open>Low Cost\<close>, and everything
  else, a null cost included, is \<^verbatim>\<open>Minimal Cost\<close>. So 5000 is \<^verbatim>\<open>High Cost\<close>, 999 is
  \<^verbatim>\<open>Low Cost\<close> and not \<^verbatim>\<open>Medium Cost\<close>, and 50 is \<^verbatim>\<open>Minimal Cost\<close>.
\<close>

theorem cost_category_thresholds:
  "(\<forall>r \<in> set (transform_treatment_data F df).
      t_cost_category r = Some (cost_category (t_cost r)))
   \<and> cost_category (Some c) =
       (if double_ge c (Finite 5000) then ''High Cost''
        else if double_ge c (Finite 1000) then ''Medium Cost''
        else if double_ge c (Finite 100) then ''Low Cost''
        else ''Minimal Cost'')
   \<and> cost_category (Some (Finite x)) =
       (if 5000 \<le> x then ''High Cost''
        else if 1000 \<le> x then ''Medium Cost''
        else if 100 \<le> x then ''Low Cost''
        else ''Minimal Cost'')
   \<and> cost_category None = ''Minimal Cost''
   \<and> cost_category (Some (Finite 5000)) = ''High Cost''
   \<and> cost_category (Some (Finite 999)) = ''Low Cost''
   \<and> cost_category (Some (Finite 999)) \<noteq> ''Medium Cost''
   \<and> cost_category (Some (Finite 50)) = ''Minimal Cost''"
proof -
  have "\<forall>r \<in> set (transform_treatment_data F df).
      t_cost_category r = Some (cost_category (t_cost r))"
    by (simp add: transform_treatment_data_def transform_treatment_row_def Let_def)
  moreover have "cost_category None = ''Minimal Cost''"
    by (simp add: cost_category_def ge_def is_true_def)
  ultimately show ?thesis
    by (simp add: cost_category_double double_ge_def)
qed

theorem cost_category_thresholds_witness:
  "map t_cost (transform_treatment_data example_sql treatment_example) =
     [Some (Finite 5000), Some (Finite 999), Some (Finite 50), None, None]
   \<and> map t_cost_category (transform_treatment_data example_sql treatment_example) =
     [Some ''High Cost'', Some ''Low Cost'', Some ''Minimal Cost'', Some ''Minimal Cost'',
      Some ''Minimal Cost'']"
  using cost_category_thresholds [of example_sql treatment_example NaN 0]
  by (simp add: transform_treatment_data_def transform_treatment_row_def Let_def
      treatment_example_def example_sql_def cost_category_double)

text \<open>
  C10. The full name of a transformed patient is the first name, a blank and the last
  name when both names are present, and null as soon as one of them is null. The
  transformation leaves the two names as they were read, so a missing name is never
  replaced by a sentinel.
\<close>

theorem full_name_concat:
  "map p_full_name (transform_patient_data F df) =
     map (\<lambda>r. case (rp_first_name r, rp_last_name r) of
            (Some f, Some l) \<Rightarrow> Some (f @ '' '' @ l) | _ \<Rightarrow> None) df
   \<and> map p_first_name (transform_patient_data F df) = map rp_first_name df
   \<and> map p_last_name (transform_patient_data F df) = map rp_last_name df
   \<and> (\<forall>r \<in> set df. (p_full_name (transform_patient_row F r) = None) =
         (rp_first_name r = None \<or> rp_last_name r = None))"
  by (auto simp: transform_patient_data_def transform_patient_row_def Let_def concat3_def
      split: option.splits)

theorem full_name_concat_witness:
  "map p_full_name (transform_patient_data example_sql patient_example) = [Some ''Ann Lee'', None]
   \<and> map p_first_name (transform_patient_data example_sql patient_example) = [Some ''Ann'', None]"
  using full_name_concat [of example_sql patient_example]
  by (simp add: patient_example_def)

section \<open>Defaults for numeric fields\<close>

text \<open>
  C5, as the claim states it, fails on the distributed variant:
  \<^verbatim>\<open>transform_treatment_data\<close> only casts the cost to a double, so the treatment
  without a cost and the treatment whose cost is not a number keep a null cost after the
  transformation (and \<^verbatim>\<open>has_valid_cost\<close> is false for them).
\<close>

theorem treatment_cost_null_counterexample:
  "map (\<lambda>r. (t_cost r, t_has_valid_cost r))
     (transform_treatment_data example_sql treatment_example) =
   [(Some (Finite 5000), True), (Some (Finite 999), True), (Some (Finite 50), True),
    (None, False), (None, False)]"
  by (simp add: transform_treatment_data_def transform_treatment_row_def Let_def
      treatment_example_def example_sql_def is_true_def is_not_null_def ge_def double_ge_def)

text \<open>
  C5, amended. In the single-process variant, on a frame that has the columns a function
  reads, every column the function coerces holds a number in every row after the
  transformation: a missing or unparsable value becomes 0 in the treatment cost and
  duration, in the patient age and in the hospital-analysis age, cost and length of stay,
  and 3 in the satisfaction; a value that is a number is kept. In the distributed variant
  the hospital-analysis age, cost, length of stay and satisfaction are never null after
  the transformation (a null becomes 0, 0, 0 and 3). The treatment cost of the distributed
  variant is the cast of the text to a double and nothing else: it is null where the
  text is missing or is not a number, then \<^verbatim>\<open>has_valid_cost\<close> is false and the
  category is \<^verbatim>\<open>Minimal Cost\<close>. The derived age at admission and length of stay of a
  patient are null where a date they are computed from is missing.
\<close>

theorem numeric_defaults:
  "(set treatment_inputs \<subseteq> set (columns tdf) \<longrightarrow>
      (\<exists>tdf'. process_treatment_data P tdf = Inr tdf'
         \<and> column_values ''cost'' tdf' = map (fill_number P 0) (column_values ''cost'' tdf)
         \<and> column_values ''duration_days'' tdf' =
             map (fill_number P 0) (column_values ''duration_days'' tdf)))
   \<and> (set analysis_inputs \<subseteq> set (columns adf) \<longrightarrow>
      (\<exists>adf'. process_hospital_analysis_data P adf = Inr adf'
         \<and> column_values ''age'' adf' = map (fill_number P 0) (column_values ''age'' adf)
         \<and> column_values ''cost'' adf' = map (fill_number P 0) (column_values ''cost'' adf)
         \<and> column_values ''length_of_stay'' adf' =
             map (fill_number P 0) (column_values ''length_of_stay'' adf)
         \<and> column_values ''satisfaction'' adf' =
             map (fill_number P 3) (column_values ''satisfaction'' adf)))
   \<and> (set patient_inputs \<subseteq> set (columns pdf) \<longrightarrow>
      (\<exists>pdf'. process_patient_data P pdf = Inr pdf'
         \<and> column_values ''age'' pdf' = map (fill_number P 0) (column_values ''age'' pdf)))
   \<and> is_number (fill_number P d c)
   \<and> (\<not> is_number (to_numeric_cell P c) \<longrightarrow> fill_number P d c = PNum (Finite d))
   \<and> (is_number (to_numeric_cell P c) \<longrightarrow> fill_number P d c = to_numeric_cell P c)
   \<and> (\<forall>r \<in> set (transform_hospital_analysis_data F df).
        a_age r \<noteq> None \<and> a_cost r \<noteq> None \<and> a_length_of_stay r \<noteq> None
        \<and> a_satisfaction r \<noteq> None)
   \<and> (\<forall>r \<in> set df.
        (ra_age r = None \<longrightarrow> a_age (transform_hospital_analysis_row F r) = Some 0)
        \<and> (ra_cost r = None \<longrightarrow> a_cost (transform_hospital_analysis_row F r) = Some (Finite 0))
        \<and> (ra_length_of_stay r = None \<longrightarrow>
             a_length_of_stay (transform_hospital_analysis_row F r) = Some 0)
        \<and> (ra_satisfaction r = None \<longrightarrow>
             a_satisfaction (transform_hospital_analysis_row F r) = Some 3))
   \<and> map t_cost (transform_treatment_data F ts) =
       map (\<lambda>r. case rt_cost r of None \<Rightarrow> None | Some s \<Rightarrow> cast_double F s) ts
   \<and> (\<forall>r \<in> set (transform_treatment_data F ts).
        t_cost r = None \<longrightarrow> \<not> t_has_valid_cost r \<and> t_cost_category r = Some ''Minimal Cost'')
   \<and> (\<forall>r \<in> set ps.
        (rp_admission_date r = None \<or> rp_date_of_birth r = None \<longrightarrow>
           p_age_at_admission (transform_patient_row F r) = None)
        \<and> (rp_admission_date r = None \<or> rp_discharge_date r = None \<longrightarrow>
           p_length_of_stay_days (transform_patient_row F r) = None))"
proof (intro conjI impI)
  assume "set treatment_inputs \<subseteq> set (columns tdf)"
  then obtain tdf' where r: "process_treatment_data P tdf = Inr tdf'"
    using process_treatment_data_returns [of P tdf] by blast
  show "\<exists>tdf'. process_treatment_data P tdf = Inr tdf'
         \<and> column_values ''cost'' tdf' = map (fill_number P 0) (column_values ''cost'' tdf)
         \<and> column_values ''duration_days'' tdf' =
             map (fill_number P 0) (column_values ''duration_days'' tdf)"
    using r process_treatment_data_Inr(3,4) [OF r] by blast
next
  assume "set analysis_inputs \<subseteq> set (columns adf)"
  then obtain adf' where r: "process_hospital_analysis_data P adf = Inr adf'"
    using process_hospital_analysis_data_returns [of P adf] by blast
  show "\<exists>adf'. process_hospital_analysis_data P adf = Inr adf'
         \<and> column_values ''age'' adf' = map (fill_number P 0) (column_values ''age'' adf)
         \<and> column_values ''cost'' adf' = map (fill_number P 0) (column_values ''cost'' adf)
         \<and> column_values ''length_of_stay'' adf' =
             map (fill_number P 0) (column_values ''length_of_stay'' adf)
         \<and> column_values ''satisfaction'' adf' =
             map (fill_number P 3) (column_values ''satisfaction'' adf)"
    using r process_hospital_analysis_data_Inr(3,4,5,6) [OF r] by blast
next
  assume "set patient_inputs \<subseteq> set (columns pdf)"
  then obtain pdf' where r: "process_patient_data P pdf = Inr pdf'"
    using process_patient_data_returns [of P pdf] by blast
  show "\<exists>pdf'. process_patient_data P pdf = Inr pdf'
         \<and> column_values ''age'' pdf' = map (fill_number P 0) (column_values ''age'' pdf)"
    using r process_patient_data_Inr(3) [OF r] by blast
next
  show "is_number (fill_number P d c)"
    by (rule fill_number_number)
next
  assume "\<not> is_number (to_numeric_cell P c)"
  then show "fill_number P d c = PNum (Finite d)"
    by (auto simp: is_number_def fill_number_def isna_def to_numeric_cell_def
        split: pcell.splits option.splits)
next
  assume "is_number (to_numeric_cell P c)"
  then show "fill_number P d c = to_numeric_cell P c"
    by (auto simp: is_number_def fill_number_def isna_def to_numeric_cell_def
        split: pcell.splits option.splits)
next
  show "\<forall>r \<in> set (transform_hospital_analysis_data F df).
        a_age r \<noteq> None \<and> a_cost r \<noteq> None \<and> a_length_of_stay r \<noteq> None
        \<and> a_satisfaction r \<noteq> None"
    by (auto simp: transform_hospital_analysis_data_def transform_hospital_analysis_row_def
        age_column_def cost_column_def length_of_stay_column_def satisfaction_column_def
        split: option.splits if_splits)
next
  show "\<forall>r \<in> set df.
        (ra_age r = None \<longrightarrow> a_age (transform_hospital_analysis_row F r) = Some 0)
        \<and> (ra_cost r = None \<longrightarrow> a_cost (transform_hospital_analysis_row F r) = Some (Finite 0))
        \<and> (ra_length_of_stay r = None \<longrightarrow>
             a_length_of_stay (transform_hospital_analysis_row F r) = Some 0)
        \<and> (ra_satisfaction r = None \<longrightarrow>
             a_satisfaction (transform_hospital_analysis_row F r) = Some 3)"
    by (simp add: transform_hospital_analysis_row_def
        age_column_def cost_column_def length_of_stay_column_def satisfaction_column_def)
next
  show "map t_cost (transform_treatment_data F ts) =
       map (\<lambda>r. case rt_cost r of None \<Rightarrow> None | Some s \<Rightarrow> cast_double F s) ts"
    by (auto simp: transform_treatment_data_def transform_treatment_row_def Let_def
        split: option.splits)
next
  show "\<forall>r \<in> set (transform_treatment_data F ts).
        t_cost r = None \<longrightarrow> \<not> t_has_valid_cost r \<and> t_cost_category r = Some ''Minimal Cost''"
    by (auto simp: transform_treatment_data_def transform_treatment_row_def Let_def
        is_true_def is_not_null_def ge_def cost_category_def)
next
  show "\<forall>r \<in> set ps.
        (rp_admission_date r = None \<or> rp_date_of_birth r = None \<longrightarrow>
           p_age_at_admission (transform_patient_row F r) = None)
        \<and> (rp_admission_date r = None \<or> rp_discharge_date r = None \<longrightarrow>
           p_length_of_stay_days (transform_patient_row F r) = None)"
    by (auto simp: transform_patient_row_def Let_def minus3_def datediff_def
        split: option.splits)
qed

theorem numeric_defaults_witness:
  "(\<exists>tdf'. process_treatment_data example_pandas treatments_csv_example = Inr tdf'
      \<and> column_values ''cost'' tdf' = [PNum (Finite 5000), PNum (Finite 0)]
      \<and> column_values ''duration_days'' tdf' = [PNum (Finite 3), PNum (Finite 0)])
   \<and> (\<exists>adf'. process_hospital_analysis_data example_pandas analysis_frame_example = Inr adf'
      \<and> column_values ''satisfaction'' adf' = [PNum (Finite 3), PNum (Finite 9)])
   \<and> (\<exists>pdf'. process_patient_data example_pandas patients_csv_example = Inr pdf'
      \<and> column_values ''age'' pdf' = [PNum (Finite 34), PNum (Finite 0)])
   \<and> fill_number example_pandas 3 (PStr ''n/a'') = PNum (Finite 3)
   \<and> map a_satisfaction (transform_hospital_analysis_data example_sql analysis_example) =
       [Some 3, Some 5]
   \<and> map t_cost (transform_treatment_data example_sql treatment_example) =
       [Some (Finite 5000), Some (Finite 999), Some (Finite 50), None, None]
   \<and> map t_has_valid_cost (transform_treatment_data example_sql treatment_example) =
       [True, True, True, False, False]
   \<and> map p_age_at_admission (transform_patient_data example_sql patient_example) =
       [Some 44, None]"
proof -
  note t = numeric_defaults [of treatments_csv_example example_pandas analysis_frame_example
      patients_csv_example 3 "PStr ''n/a''" example_sql analysis_example treatment_example
      patient_example]
  have 1: "set treatment_inputs \<subseteq> set (columns treatments_csv_example)"
    by (simp add: treatment_inputs_def treatments_csv_example_def)
  have 2: "set analysis_inputs \<subseteq> set (columns analysis_frame_example)"
    by (simp add: analysis_inputs_def analysis_frame_example_def)
  have 3: "set patient_inputs \<subseteq> set (columns patients_csv_example)"
    by (simp add: patient_inputs_def patients_csv_example_def)
  have 4: "\<not> is_number (to_numeric_cell example_pandas (PStr ''n/a''))"
    by (simp add: is_number_def to_numeric_cell_def example_pandas_def)
  have a: "\<exists>tdf'. process_treatment_data example_pandas treatments_csv_example = Inr tdf'
      \<and> column_values ''cost'' tdf' = [PNum (Finite 5000), PNum (Finite 0)]
      \<and> column_values ''duration_days'' tdf' = [PNum (Finite 3), PNum (Finite 0)]"
    using t 1
    by (auto simp: treatments_csv_example_def column_values_def fill_number_def
        to_numeric_cell_def isna_def example_pandas_def)
  have b: "\<exists>adf'. process_hospital_analysis_data example_pandas analysis_frame_example = Inr adf'
      \<and> column_values ''satisfaction'' adf' = [PNum (Finite 3), PNum (Finite 9)]"
    using t 2
    by (auto simp: analysis_frame_example_def column_values_def fill_number_def
        to_numeric_cell_def isna_def example_pandas_def)
  have c: "\<exists>pdf'. process_patient_data example_pandas patients_csv_example = Inr pdf'
      \<and> column_values ''age'' pdf' = [PNum (Finite 34), PNum (Finite 0)]"
    using t 3
    by (auto simp: patients_csv_example_def column_values_def fill_number_def
        to_numeric_cell_def isna_def example_pandas_def)
  have d: "fill_number example_pandas 3 (PStr ''n/a'') = PNum (Finite 3)"
    using t 4 by blast
  have e: "map a_satisfaction (transform_hospital_analysis_data example_sql analysis_example) =
       [Some 3, Some 5]"
    by (simp add: transform_hospital_analysis_data_def transform_hospital_analysis_row_def
        analysis_example_def satisfaction_column_def)
  have f: "map t_cost (transform_treatment_data example_sql treatment_example) =
       [Some (Finite 5000), Some (Finite 999), Some (Finite 50), None, None]"
    using t by (simp add: treatment_example_def example_sql_def)
  have g: "map t_has_valid_cost (transform_treatment_data example_sql treatment_example) =
       [True, True, True, False, False]"
    by (simp add: transform_treatment_data_def transform_treatment_row_def Let_def
      treatment_example_def example_sql_def is_true_def is_not_null_def ge_def double_ge_def)
  have h: "map p_age_at_admission (transform_patient_data example_sql patient_example) =
       [Some 44, None]"
    by (simp add: transform_patient_data_def transform_patient_row_def Let_def
      patient_example_def example_sql_def minus3_def)
  from a b c d e f g h show ?thesis by blast
qed


section \<open>The transformations keep the rows\<close>

text \<open>
  C7. Every transformation returns a table with as many rows as its input, row \<open>i\<close> of
  the result being computed from row \<open>i\<close> of the input alone. In the distributed
  variant the columns that no \<^verbatim>\<open>withColumn\<close> names are the same in both tables, row
  by row. In the single-process variant a function that returns has kept the number of
  rows, has added the column \<^verbatim>\<open>created_at\<close> and has left every column that it does not
  assign as it was; it returns exactly when the frame has the columns it reads, and
  raises \<^verbatim>\<open>KeyError\<close> otherwise, in which case there is no transformed table.
\<close>

theorem transform_preserves_rows:
  "length (transform_patient_data F ps) = length ps
   \<and> (i < length ps \<longrightarrow> transform_patient_data F ps ! i = transform_patient_row F (ps ! i))
   \<and> map (\<lambda>r. (p_patient_id r, p_first_name r, p_last_name r, p_gender r, p_diagnosis r))
         (transform_patient_data F ps) =
       map (\<lambda>r. (rp_patient_id r, rp_first_name r, rp_last_name r, rp_gender r, rp_diagnosis r)) ps
   \<and> length (transform_treatment_data F ts) = length ts
   \<and> (i < length ts \<longrightarrow> transform_treatment_data F ts ! i = transform_treatment_row F (ts ! i))
   \<and> map (\<lambda>r. (t_treatment_id r, t_patient_id r, t_treatment_type r, t_doctor_name r,
                 t_treatment_notes r)) (transform_treatment_data F ts) =
       map (\<lambda>r. (rt_treatment_id r, rt_patient_id r, rt_treatment_type r, rt_doctor_name r,
                 rt_treatment_notes r)) ts
   \<and> length (transform_hospital_analysis_data F hs) = length hs
   \<and> (i < length hs \<longrightarrow>
        transform_hospital_analysis_data F hs ! i = transform_hospital_analysis_row F (hs ! i))
   \<and> map a_patient_id (transform_hospital_analysis_data F hs) = map ra_patient_id hs
   \<and> (\<forall>pdf'. process_patient_data P pdf = Inr pdf' \<longrightarrow>
        count pdf' = count pdf
        \<and> set (columns pdf') = insert ''created_at'' (set (columns pdf))
        \<and> (\<forall>c. c \<notin> set (''created_at'' # patient_inputs) \<longrightarrow>
              column_values c pdf' = column_values c pdf))
   \<and> (\<forall>tdf'. process_treatment_data P tdf = Inr tdf' \<longrightarrow>
        count tdf' = count tdf
        \<and> set (columns tdf') = insert ''created_at'' (set (columns tdf))
        \<and> (\<forall>c. c \<notin> set (''created_at'' # treatment_inputs) \<longrightarrow>
              column_values c tdf' = column_values c tdf))
   \<and> (\<forall>adf'. process_hospital_analysis_data P adf = Inr adf' \<longrightarrow>
        count adf' = count adf
        \<and> set (columns adf') = insert ''created_at'' (set (columns adf))
        \<and> (\<forall>c. c \<notin> set (''created_at'' # analysis_inputs) \<longrightarrow>
              column_values c adf' = column_values c adf))
   \<and> (\<exists>pdf'. process_patient_data P pdf = Inr pdf') = (set patient_inputs \<subseteq> set (columns pdf))
   \<and> (\<exists>tdf'. process_treatment_data P tdf = Inr tdf') =
       (set treatment_inputs \<subseteq> set (columns tdf))
   \<and> (\<exists>adf'. process_hospital_analysis_data P adf = Inr adf') =
       (set analysis_inputs \<subseteq> set (columns adf))"
proof -
  have p: "map (\<lambda>r. (p_patient_id r, p_first_name r, p_last_name r, p_gender r, p_diagnosis r))
         (transform_patient_data F ps) =
       map (\<lambda>r. (rp_patient_id r, rp_first_name r, rp_last_name r, rp_gender r, rp_diagnosis r)) ps"
    by (simp add: transform_patient_data_def transform_patient_row_def Let_def)
  have t: "map (\<lambda>r. (t_treatment_id r, t_patient_id r, t_treatment_type r, t_doctor_name r,
                 t_treatment_notes r)) (transform_treatment_data F ts) =
       map (\<lambda>r. (rt_treatment_id r, rt_patient_id r, rt_treatment_type r, rt_doctor_name r,
                 rt_treatment_notes r)) ts"
    by (simp add: transform_treatment_data_def transform_treatment_row_def Let_def)
  have a: "map a_patient_id (transform_hospital_analysis_data F hs) = map ra_patient_id hs"
    by (simp add: transform_hospital_analysis_data_def transform_hospital_analysis_row_def)
  have l: "length (transform_patient_data F ps) = length ps"
    "length (transform_treatment_data F ts) = length ts"
    "length (transform_hospital_analysis_data F hs) = length hs"
    by (simp_all add: transform_patient_data_def transform_treatment_data_def
        transform_hospital_analysis_data_def)
  have n: "i < length ps \<longrightarrow> transform_patient_data F ps ! i = transform_patient_row F (ps ! i)"
    "i < length ts \<longrightarrow> transform_treatment_data F ts ! i = transform_treatment_row F (ts ! i)"
    "i < length hs \<longrightarrow>
        transform_hospital_analysis_data F hs ! i = transform_hospital_analysis_row F (hs ! i)"
    by (simp_all add: transform_patient_data_def transform_treatment_data_def
        transform_hospital_analysis_data_def)
  have pp: "\<forall>pdf'. process_patient_data P pdf = Inr pdf' \<longrightarrow>
        count pdf' = count pdf
        \<and> set (columns pdf') = insert ''created_at'' (set (columns pdf))
        \<and> (\<forall>c. c \<notin> set (''created_at'' # patient_inputs) \<longrightarrow>
              column_values c pdf' = column_values c pdf)"
    using process_patient_data_Inr(1,2,7) by (simp add: count_def)
  have pt: "\<forall>tdf'. process_treatment_data P tdf = Inr tdf' \<longrightarrow>
        count tdf' = count tdf
        \<and> set (columns tdf') = insert ''created_at'' (set (columns tdf))
        \<and> (\<forall>c. c \<notin> set (''created_at'' # treatment_inputs) \<longrightarrow>
              column_values c tdf' = column_values c tdf)"
    using process_treatment_data_Inr(1,2,7) by (simp add: count_def)
  have pa: "\<forall>adf'. process_hospital_analysis_data P adf = Inr adf' \<longrightarrow>
        count adf' = count adf
        \<and> set (columns adf') = insert ''created_at'' (set (columns adf))
        \<and> (\<forall>c. c \<notin> set (''created_at'' # analysis_inputs) \<longrightarrow>
              column_values c adf' = column_values c adf)"
    using process_hospital_analysis_data_Inr(1,2,13) by (simp add: count_def)
  show ?thesis
    using p t a l n pp pt pa process_patient_data_returns [of P pdf]
      process_treatment_data_returns [of P tdf] process_hospital_analysis_data_returns [of P adf]
    by blast
qed

theorem transform_preserves_rows_witness:
  "length (transform_patient_data example_sql patient_example) = 2
   \<and> transform_patient_data example_sql patient_example ! 1 =
       transform_patient_row example_sql (patient_example ! 1)
   \<and> length (transform_treatment_data example_sql treatment_example) = 5
   \<and> length (transform_hospital_analysis_data example_sql analysis_example) = 2
   \<and> (\<exists>pdf'. process_patient_data example_pandas patients_csv_example = Inr pdf'
        \<and> count pdf' = 2
        \<and> column_values ''patient_id'' pdf' = [PStr ''P001'', PStr ''P002''])
   \<and> (\<exists>tdf'. process_treatment_data example_pandas treatments_csv_example = Inr tdf'
        \<and> count tdf' = 2)
   \<and> (\<exists>adf'. process_hospital_analysis_data example_pandas analysis_frame_example = Inr adf'
        \<and> count adf' = 2)"
proof -
  note t = transform_preserves_rows [where F = example_sql and ps = patient_example and i = 1
      and ts = treatment_example and hs = analysis_example and P = example_pandas
      and pdf = patients_csv_example and tdf = treatments_csv_example
      and adf = analysis_frame_example]
  have i: "(1::nat) < length patient_example"
    by (simp add: patient_example_def)
  have c: "set patient_inputs \<subseteq> set (columns patients_csv_example)"
    "set treatment_inputs \<subseteq> set (columns treatments_csv_example)"
    "set analysis_inputs \<subseteq> set (columns analysis_frame_example)"
    by (simp_all add: patient_inputs_def treatment_inputs_def analysis_inputs_def
        patients_csv_example_def treatments_csv_example_def analysis_frame_example_def)
  have n: "''patient_id'' \<notin> set (''created_at'' # patient_inputs)"
    by (simp add: patient_inputs_def)
  have e: "length patient_example = 2" "length treatment_example = 5" "length analysis_example = 2"
    "count patients_csv_example = 2" "count treatments_csv_example = 2"
    "count analysis_frame_example = 2"
    "column_values ''patient_id'' patients_csv_example = [PStr ''P001'', PStr ''P002'']"
    by (simp_all add: patient_example_def treatment_example_def analysis_example_def count_def
        column_values_def patients_csv_example_def treatments_csv_example_def
        analysis_frame_example_def)
  note r1 = t [THEN conjunct2]
  note r2 = r1 [THEN conjunct2]
  note r3 = r2 [THEN conjunct2]
  note r4 = r3 [THEN conjunct2]
  note r5 = r4 [THEN conjunct2]
  note r6 = r5 [THEN conjunct2]
  note r7 = r6 [THEN conjunct2]
  note r8 = r7 [THEN conjunct2]
  note r9 = r8 [THEN conjunct2]
  note r10 = r9 [THEN conjunct2]
  note r11 = r10 [THEN conjunct2]
  note r12 = r11 [THEN conjunct2]
  note r13 = r12 [THEN conjunct2]
  have 1: "length (transform_patient_data example_sql patient_example) = length patient_example"
    "length (transform_treatment_data example_sql treatment_example) = length treatment_example"
    "length (transform_hospital_analysis_data example_sql analysis_example) =
       length analysis_example"
    by (rule t [THEN conjunct1], rule r3 [THEN conjunct1], rule r6 [THEN conjunct1])
  have 2: "transform_patient_data example_sql patient_example ! 1 =
       transform_patient_row example_sql (patient_example ! 1)"
    using r1 [THEN conjunct1] i by (rule mp)
  obtain pdf' where p: "process_patient_data example_pandas patients_csv_example = Inr pdf'"
    using r12 [THEN conjunct1] c(1) by blast
  have 3: "count pdf' = count patients_csv_example
      \<and> column_values ''patient_id'' pdf' = column_values ''patient_id'' patients_csv_example"
    using r9 [THEN conjunct1] p n by blast
  obtain tdf' where q: "process_treatment_data example_pandas treatments_csv_example = Inr tdf'"
    using r13 [THEN conjunct1] c(2) by blast
  have 4: "count tdf' = count treatments_csv_example"
    using r10 [THEN conjunct1] q by blast
  obtain adf' where r: "process_hospital_analysis_data example_pandas analysis_frame_example = Inr adf'"
    using r13 [THEN conjunct2] c(3) by blast
  have 5: "count adf' = count analysis_frame_example"
    using r11 [THEN conjunct1] r by blast
  show ?thesis
    using 1 2 3 4 5 p q r by (simp add: e)
qed

section \<open>Validation\<close>

lemma missing_column_None: "(missing_column df cs = None) = (set cs \<subseteq> set (columns df))"
  by (auto simp: missing_column_def find_None_iff)

lemma count_null_Inr:
  "set cs \<subseteq> set (columns df) \<Longrightarrow>
     count_null df cs = Inr (length (filter (\<lambda>r. \<exists>c \<in> set cs. r c = None) (rows df)))"
  using missing_column_None [of df cs] by (simp add: count_null_def)

lemma count_null_key:
  "c \<in> set (columns df) \<Longrightarrow>
     count_null df [c] = Inr (length (filter (\<lambda>k. k = None) (column_values c df)))"
  using count_null_Inr [of "[c]" df] by (simp add: column_values_def filter_map o_def)

lemma count_duplicates_Inr:
  "c \<in> set (columns df) \<Longrightarrow>
     count_duplicates df c = Inr (duplicate_groups (column_values c df))"
  using missing_column_None [of df "[c]"] by (simp add: count_duplicates_def)

text \<open>
  The count of the source is the number of key values that more than one row holds, and
  it is 0 exactly when no key occurs twice.
\<close>

lemma duplicate_groups_card: "duplicate_groups keys = card {k. 1 < count_list keys k}"
proof -
  have "{k. 1 < count_list keys k} = set (filter (\<lambda>k. 1 < count_list keys k) (remdups keys))"
    by (auto simp: count_list_0_iff intro: ccontr)
  then show ?thesis
    by (simp add: duplicate_groups_def distinct_card del: set_filter)
qed

lemma distinct_count_list: "distinct xs = (\<forall>k. count_list xs k \<le> 1)"
proof (induction xs)
  case Nil
  show ?case by simp
next
  case (Cons a xs)
  have "(\<forall>k. count_list (a # xs) k \<le> 1) = (count_list xs a = 0 \<and> (\<forall>k. count_list xs k \<le> 1))"
    by (auto simp: le_Suc_eq)
  then show ?case
    using Cons by (simp add: count_list_0_iff)
qed

lemma duplicate_groups_distinct: "(duplicate_groups keys = 0) = distinct keys"
proof -
  have "(duplicate_groups keys = 0) = (\<forall>k \<in> set keys. \<not> 1 < count_list keys k)"
    by (auto simp: duplicate_groups_def filter_empty_conv)
  also have "\<dots> = (\<forall>k. count_list keys k \<le> 1)"
    by (auto simp: not_less)
  finally show ?thesis by (simp add: distinct_count_list)
qed

lemma validate_patient:
  assumes "set patient_checked \<subseteq> set (columns df)"
  shows "\<exists>lg. validate_data df ''patient'' =
           Inr (lg, \<not> (0 < length (filter (\<lambda>k. k = None) (column_values ''patient_id'' df))
                       \<or> 0 < duplicate_groups (column_values ''patient_id'' df)))
         \<and> map_of lg ''Records with null patient_id'' =
             Some (length (filter (\<lambda>k. k = None) (column_values ''patient_id'' df)))
         \<and> map_of lg ''Duplicate patient IDs'' =
             Some (duplicate_groups (column_values ''patient_id'' df))"
proof -
  define N where "N = length (filter (\<lambda>k. k = None) (column_values ''patient_id'' df))"
  define D where "D = duplicate_groups (column_values ''patient_id'' df)"
  have n: "count_null df [''patient_id''] = Inr N"
    using assms by (simp add: count_null_key N_def patient_checked_def)
  have d: "count_duplicates df ''patient_id'' = Inr D"
    using assms by (simp add: count_duplicates_Inr D_def patient_checked_def)
  have o: "\<exists>a. count_null df [''first_name'', ''last_name''] = Inr a"
    "\<exists>b. count_null df [''admission_date'', ''discharge_date''] = Inr b"
    using assms by (simp_all add: count_null_Inr patient_checked_def)
  have "\<exists>lg. validate_data df ''patient'' = Inr (lg, \<not> (0 < N \<or> 0 < D))
         \<and> map_of lg ''Records with null patient_id'' = Some N
         \<and> map_of lg ''Duplicate patient IDs'' = Some D"
    using n d o by (auto simp: validate_data_def Let_def bind_def)
  then show ?thesis by (simp only: N_def D_def)
qed

lemma validate_treatment:
  assumes "set treatment_checked \<subseteq> set (columns df)"
  shows "\<exists>lg. validate_data df ''treatment'' =
           Inr (lg, \<not> (0 < length (filter (\<lambda>k. k = None) (column_values ''treatment_id'' df))
                       \<or> 0 < duplicate_groups (column_values ''treatment_id'' df)))
         \<and> map_of lg ''Records with null treatment_id'' =
             Some (length (filter (\<lambda>k. k = None) (column_values ''treatment_id'' df)))
         \<and> map_of lg ''Duplicate treatment IDs'' =
             Some (duplicate_groups (column_values ''treatment_id'' df))"
proof -
  define N where "N = length (filter (\<lambda>k. k = None) (column_values ''treatment_id'' df))"
  define D where "D = duplicate_groups (column_values ''treatment_id'' df)"
  have n: "count_null df [''treatment_id''] = Inr N"
    using assms by (simp add: count_null_key N_def treatment_checked_def)
  have d: "count_duplicates df ''treatment_id'' = Inr D"
    using assms by (simp add: count_duplicates_Inr D_def treatment_checked_def)
  have o: "\<exists>a. count_null df [''patient_id''] = Inr a"
    "\<exists>b. count_null df [''treatment_type''] = Inr b"
    "\<exists>c. count_null df [''cost''] = Inr c"
    using assms by (simp_all add: count_null_Inr treatment_checked_def)
  have "\<exists>lg. validate_data df ''treatment'' = Inr (lg, \<not> (0 < N \<or> 0 < D))
         \<and> map_of lg ''Records with null treatment_id'' = Some N
         \<and> map_of lg ''Duplicate treatment IDs'' = Some D"
    using n d o by (auto simp: validate_data_def Let_def bind_def)
  then show ?thesis by (simp only: N_def D_def)
qed

lemma validate_analysis:
  assumes "set analysis_checked \<subseteq> set (columns df)"
  shows "\<exists>lg. validate_data df ''hospital_analysis'' =
           Inr (lg, \<not> (0 < length (filter (\<lambda>k. k = None) (column_values ''patient_id'' df))
                       \<or> 0 < duplicate_groups (column_values ''patient_id'' df)))
         \<and> map_of lg ''Records with null patient_id'' =
             Some (length (filter (\<lambda>k. k = None) (column_values ''patient_id'' df)))
         \<and> map_of lg ''Duplicate patient IDs'' =
             Some (duplicate_groups (column_values ''patient_id'' df))"
proof -
  define N where "N = length (filter (\<lambda>k. k = None) (column_values ''patient_id'' df))"
  define D where "D = duplicate_groups (column_values ''patient_id'' df)"
  have n: "count_null df [''patient_id''] = Inr N"
    using assms by (simp add: count_null_key N_def analysis_checked_def)
  have d: "count_duplicates df ''patient_id'' = Inr D"
    using assms by (simp add: count_duplicates_Inr D_def analysis_checked_def)
  have o: "\<exists>a. count_null df [''age''] = Inr a"
    "\<exists>b. count_null df [''gender''] = Inr b"
    "\<exists>c. count_null df [''condition''] = Inr c"
    using assms by (simp_all add: count_null_Inr analysis_checked_def)
  have "\<exists>lg. validate_data df ''hospital_analysis'' = Inr (lg, \<not> (0 < N \<or> 0 < D))
         \<and> map_of lg ''Records with null patient_id'' = Some N
         \<and> map_of lg ''Duplicate patient IDs'' = Some D"
    using n d o by (auto simp: validate_data_def Let_def bind_def)
  then show ?thesis by (simp only: N_def D_def)
qed

lemma verdict_patient:
  "set patient_checked \<subseteq> set (columns df) \<Longrightarrow>
     map_sum id snd (validate_data df ''patient'') =
       Inr (\<not> (0 < length (filter (\<lambda>k. k = None) (column_values ''patient_id'' df))
              \<or> 0 < duplicate_groups (column_values ''patient_id'' df)))"
  using validate_patient [of df] by auto

lemma verdict_treatment:
  "set treatment_checked \<subseteq> set (columns df) \<Longrightarrow>
     map_sum id snd (validate_data df ''treatment'') =
       Inr (\<not> (0 < length (filter (\<lambda>k. k = None) (column_values ''treatment_id'' df))
              \<or> 0 < duplicate_groups (column_values ''treatment_id'' df)))"
  using validate_treatment [of df] by auto

lemma verdict_analysis:
  "set analysis_checked \<subseteq> set (columns df) \<Longrightarrow>
     map_sum id snd (validate_data df ''hospital_analysis'') =
       Inr (\<not> (0 < length (filter (\<lambda>k. k = None) (column_values ''patient_id'' df))
              \<or> 0 < duplicate_groups (column_values ''patient_id'' df)))"
  using validate_analysis [of df] by auto

lemma transformed_frames_checked:
  "set patient_checked \<subseteq> set (columns (patient_frame ps))"
  "set treatment_checked \<subseteq> set (columns (treatment_frame ts))"
  "set analysis_checked \<subseteq> set (columns (analysis_frame hs))"
  by (simp_all add: patient_checked_def treatment_checked_def analysis_checked_def
      patient_frame_def treatment_frame_def analysis_frame_def)

lemma duplicate_example_keys:
  "column_values ''patient_id''
     (patient_frame (transform_patient_data example_sql patient_duplicate_example)) =
   [Some (VString ''P001''), Some (VString ''P002''), Some (VString ''P001'')]"
  by (simp add: column_values_def patient_frame_def transform_patient_data_def
      transform_patient_row_def Let_def patient_duplicate_example_def patient_example_def
      patient_row_def)

text \<open>
  C6. On a table that has the columns the branch of its tag reads (every transformed
  table does, for its own tag), \<^verbatim>\<open>validate_data\<close> returns, and it returns false exactly
  when the number of null keys is above 0 or the number of duplicate key groups is above
  0; it logs both numbers. The key is \<^verbatim>\<open>patient_id\<close> for the tags \<^verbatim>\<open>patient\<close> and
  \<^verbatim>\<open>hospital_analysis\<close> and \<^verbatim>\<open>treatment_id\<close> for the tag \<^verbatim>\<open>treatment\<close>. The number
  of duplicate groups is the number of key values that more than one row holds, so it is
  1 when exactly one key value is duplicated, and it is 0 exactly when the keys are
  distinct. Two tables with the same key column get the same verdict, whatever their
  other columns hold: the other null counts have no effect on it. The function returns
  the log and the verdict and nothing else; tables are values, and the filters and
  groupings it builds are new tables, so the table it was given is as it was.
\<close>

theorem validate_data_verdict:
  "(set patient_checked \<subseteq> set (columns df) \<longrightarrow>
      (\<exists>lg. validate_data df ''patient'' =
           Inr (lg, \<not> (0 < length (filter (\<lambda>k. k = None) (column_values ''patient_id'' df))
                       \<or> 0 < duplicate_groups (column_values ''patient_id'' df)))
         \<and> map_of lg ''Records with null patient_id'' =
             Some (length (filter (\<lambda>k. k = None) (column_values ''patient_id'' df)))
         \<and> map_of lg ''Duplicate patient IDs'' =
             Some (duplicate_groups (column_values ''patient_id'' df))))
   \<and> (set treatment_checked \<subseteq> set (columns df) \<longrightarrow>
      (\<exists>lg. validate_data df ''treatment'' =
           Inr (lg, \<not> (0 < length (filter (\<lambda>k. k = None) (column_values ''treatment_id'' df))
                       \<or> 0 < duplicate_groups (column_values ''treatment_id'' df)))
         \<and> map_of lg ''Records with null treatment_id'' =
             Some (length (filter (\<lambda>k. k = None) (column_values ''treatment_id'' df)))
         \<and> map_of lg ''Duplicate treatment IDs'' =
             Some (duplicate_groups (column_values ''treatment_id'' df))))
   \<and> (set analysis_checked \<subseteq> set (columns df) \<longrightarrow>
      (\<exists>lg. validate_data df ''hospital_analysis'' =
           Inr (lg, \<not> (0 < length (filter (\<lambda>k. k = None) (column_values ''patient_id'' df))
                       \<or> 0 < duplicate_groups (column_values ''patient_id'' df)))
         \<and> map_of lg ''Records with null patient_id'' =
             Some (length (filter (\<lambda>k. k = None) (column_values ''patient_id'' df)))
         \<and> map_of lg ''Duplicate patient IDs'' =
             Some (duplicate_groups (column_values ''patient_id'' df))))
   \<and> duplicate_groups (column_values c df) = card {k. 1 < count_list (column_values c df) k}
   \<and> ({k. 1 < count_list (column_values c df) k} = {d} \<longrightarrow>
        duplicate_groups (column_values c df) = 1)
   \<and> (duplicate_groups (column_values c df) = 0) = distinct (column_values c df)
   \<and> (set patient_checked \<subseteq> set (columns df) \<and> set patient_checked \<subseteq> set (columns df')
        \<and> column_values ''patient_id'' df = column_values ''patient_id'' df' \<longrightarrow>
        map_sum id snd (validate_data df ''patient'') =
        map_sum id snd (validate_data df' ''patient''))
   \<and> (set treatment_checked \<subseteq> set (columns df) \<and> set treatment_checked \<subseteq> set (columns df')
        \<and> column_values ''treatment_id'' df = column_values ''treatment_id'' df' \<longrightarrow>
        map_sum id snd (validate_data df ''treatment'') =
        map_sum id snd (validate_data df' ''treatment''))
   \<and> (set analysis_checked \<subseteq> set (columns df) \<and> set analysis_checked \<subseteq> set (columns df')
        \<and> column_values ''patient_id'' df = column_values ''patient_id'' df' \<longrightarrow>
        map_sum id snd (validate_data df ''hospital_analysis'') =
        map_sum id snd (validate_data df' ''hospital_analysis''))
   \<and> set patient_checked \<subseteq> set (columns (patient_frame ps))
   \<and> set treatment_checked \<subseteq> set (columns (treatment_frame ts))
   \<and> set analysis_checked \<subseteq> set (columns (analysis_frame hs))"
proof -
  have one: "{k. 1 < count_list (column_values c df) k} = {d} \<longrightarrow>
        duplicate_groups (column_values c df) = 1"
    by (simp add: duplicate_groups_card)
  have np: "set patient_checked \<subseteq> set (columns df) \<and> set patient_checked \<subseteq> set (columns df')
        \<and> column_values ''patient_id'' df = column_values ''patient_id'' df' \<longrightarrow>
        map_sum id snd (validate_data df ''patient'') =
        map_sum id snd (validate_data df' ''patient'')"
    by (simp add: verdict_patient)
  have nt: "set treatment_checked \<subseteq> set (columns df) \<and> set treatment_checked \<subseteq> set (columns df')
        \<and> column_values ''treatment_id'' df = column_values ''treatment_id'' df' \<longrightarrow>
        map_sum id snd (validate_data df ''treatment'') =
        map_sum id snd (validate_data df' ''treatment'')"
    by (simp add: verdict_treatment)
  have na: "set analysis_checked \<subseteq> set (columns df) \<and> set analysis_checked \<subseteq> set (columns df')
        \<and> column_values ''patient_id'' df = column_values ''patient_id'' df' \<longrightarrow>
        map_sum id snd (validate_data df ''hospital_analysis'') =
        map_sum id snd (validate_data df' ''hospital_analysis'')"
    by (simp add: verdict_analysis)
  show ?thesis
    using validate_patient [of df] validate_treatment [of df] validate_analysis [of df]
      duplicate_groups_card [of "column_values c df"]
      duplicate_groups_distinct [of "column_values c df"]
      one np nt na transformed_frames_checked
    by blast
qed

text \<open>
  The scenario of the specification: the first patient is read twice and the rows are
  valid otherwise, so the verdict is false and one duplicate group is logged. The table
  of the two patients passes although its second row has no first name and no dates.
\<close>

theorem validate_data_verdict_witness:
  "(\<exists>lg. validate_data
            (patient_frame (transform_patient_data example_sql patient_duplicate_example))
            ''patient'' = Inr (lg, False)
       \<and> map_of lg ''Records with null patient_id'' = Some 0
       \<and> map_of lg ''Duplicate patient IDs'' = Some 1)
   \<and> duplicate_groups (column_values ''patient_id''
        (patient_frame (transform_patient_data example_sql patient_duplicate_example))) = 1
   \<and> (\<exists>lg. validate_data (patient_frame (transform_patient_data example_sql patient_example))
            ''patient'' = Inr (lg, True))
   \<and> (\<exists>lg. validate_data (treatment_frame (transform_treatment_data example_sql treatment_example))
            ''treatment'' = Inr (lg, True))
   \<and> (\<exists>lg. validate_data
            (analysis_frame (transform_hospital_analysis_data example_sql analysis_example))
            ''hospital_analysis'' = Inr (lg, True))"
proof -
  let ?dup = "patient_frame (transform_patient_data example_sql patient_duplicate_example)"
  let ?p = "patient_frame (transform_patient_data example_sql patient_example)"
  let ?t = "treatment_frame (transform_treatment_data example_sql treatment_example)"
  let ?a = "analysis_frame (transform_hospital_analysis_data example_sql analysis_example)"
  note vd = validate_data_verdict [where df = ?dup and c = "''patient_id''"
      and d = "Some (VString ''P001'')"]
  note vp = validate_data_verdict [where df = ?p, THEN conjunct1]
  note vt = validate_data_verdict [where df = ?t, THEN conjunct2, THEN conjunct1]
  note va = validate_data_verdict [where df = ?a, THEN conjunct2, THEN conjunct2, THEN conjunct1]
  have cols: "set patient_checked \<subseteq> set (columns ?dup)" "set patient_checked \<subseteq> set (columns ?p)"
    "set treatment_checked \<subseteq> set (columns ?t)" "set analysis_checked \<subseteq> set (columns ?a)"
    by (rule transformed_frames_checked)+
  have one: "{k. 1 < count_list (column_values ''patient_id'' ?dup) k} = {Some (VString ''P001'')}"
    by (auto simp: duplicate_example_keys split: if_splits)
  have kp: "column_values ''patient_id'' ?p = [Some (VString ''P001''), Some (VString ''P002'')]"
    by (simp add: column_values_def patient_frame_def transform_patient_data_def
      transform_patient_row_def Let_def patient_example_def patient_row_def)
  have kt: "column_values ''treatment_id'' ?t =
      [Some (VString ''T001''), Some (VString ''T002''), Some (VString ''T003''),
       Some (VString ''T004''), Some (VString ''T005'')]"
    by (simp add: column_values_def treatment_frame_def transform_treatment_data_def
      transform_treatment_row_def Let_def treatment_example_def treatment_row_def)
  have ka: "column_values ''patient_id'' ?a = [Some (VString ''P001''), Some (VString ''P002'')]"
    by (simp add: column_values_def analysis_frame_def transform_hospital_analysis_data_def
      transform_hospital_analysis_row_def analysis_example_def analysis_row_def)
  have d1: "duplicate_groups (column_values ''patient_id'' ?dup) = 1"
    using vd [THEN conjunct2, THEN conjunct2, THEN conjunct2, THEN conjunct2, THEN conjunct1] one
    by (rule mp)
  have 1: "\<exists>lg. validate_data ?dup ''patient'' = Inr (lg, False)
       \<and> map_of lg ''Records with null patient_id'' = Some 0
       \<and> map_of lg ''Duplicate patient IDs'' = Some 1"
  proof -
    have "\<exists>lg. validate_data ?dup ''patient'' =
           Inr (lg, \<not> (0 < length (filter (\<lambda>k. k = None) (column_values ''patient_id'' ?dup))
                       \<or> 0 < duplicate_groups (column_values ''patient_id'' ?dup)))
         \<and> map_of lg ''Records with null patient_id'' =
             Some (length (filter (\<lambda>k. k = None) (column_values ''patient_id'' ?dup)))
         \<and> map_of lg ''Duplicate patient IDs'' =
             Some (duplicate_groups (column_values ''patient_id'' ?dup))"
      using vd [THEN conjunct1] cols(1) by (rule mp)
    then show ?thesis
      by (simp add: d1) (simp add: duplicate_example_keys)
  qed
  have 2: "\<exists>lg. validate_data ?p ''patient'' = Inr (lg, True)"
  proof -
    have "\<exists>lg. validate_data ?p ''patient'' =
           Inr (lg, \<not> (0 < length (filter (\<lambda>k. k = None) (column_values ''patient_id'' ?p))
                       \<or> 0 < duplicate_groups (column_values ''patient_id'' ?p)))"
      using vp cols(2) by blast
    then show ?thesis
      by (simp add: kp duplicate_groups_def)
  qed
  have 3: "\<exists>lg. validate_data ?t ''treatment'' = Inr (lg, True)"
  proof -
    have "\<exists>lg. validate_data ?t ''treatment'' =
           Inr (lg, \<not> (0 < length (filter (\<lambda>k. k = None) (column_values ''treatment_id'' ?t))
                       \<or> 0 < duplicate_groups (column_values ''treatment_id'' ?t)))"
      using vt cols(3) by blast
    then show ?thesis
      by (simp add: kt duplicate_groups_def)
  qed
  have 4: "\<exists>lg. validate_data ?a ''hospital_analysis'' = Inr (lg, True)"
  proof -
    have "\<exists>lg. validate_data ?a ''hospital_analysis'' =
           Inr (lg, \<not> (0 < length (filter (\<lambda>k. k = None) (column_values ''patient_id'' ?a))
                       \<or> 0 < duplicate_groups (column_values ''patient_id'' ?a)))"
      using va cols(4) by blast
    then show ?thesis
      by (simp add: ka duplicate_groups_def)
  qed
  from 1 d1 2 3 4 show ?thesis by blast
qed

text \<open>
  C9. For a tag other than \<^verbatim>\<open>patient\<close>, \<^verbatim>\<open>treatment\<close> and \<^verbatim>\<open>hospital_analysis\<close> the
  function reads no column of the table, whatever the table is: it logs the number of
  rows and nothing else, and returns true.
\<close>

theorem validate_data_unknown_tag:
  "data_type \<notin> {''patient'', ''treatment'', ''hospital_analysis''} \<Longrightarrow>
     validate_data df data_type = Inr ([(''Total records to validate'', count df)], True)"
  by (simp add: validate_data_def)

text \<open>The tag \<^verbatim>\<open>patients\<close> on the table that fails under the tag \<^verbatim>\<open>patient\<close>.\<close>

theorem validate_data_unknown_tag_witness:
  "validate_data (patient_frame (transform_patient_data example_sql patient_duplicate_example))
     ''patients'' = Inr ([(''Total records to validate'', 3)], True)"
  using validate_data_unknown_tag
    [of "''patients''"
        "patient_frame (transform_patient_data example_sql patient_duplicate_example)"]
  by (simp add: count_def patient_frame_def transform_patient_data_def patient_example_def
      patient_duplicate_example_def)

section \<open>Loading\<close>

lemma load_job_truncate:
  "load_job CREATE_IF_NEEDED WRITE_TRUNCATE n d wh = Inr (wh(n \<mapsto> d))"
  by (simp add: load_job_def split: option.split)

lemma select_returns: "(\<exists>s. select cs df = Inr s) = (set cs \<subseteq> set (columns df))"
  using missing_column_None [of df cs] by (auto simp: select_def split: option.splits)

lemma select_Inr:
  assumes "select cs df = Inr s"
  shows "columns s = cs" and "count s = count df"
    and "c \<in> set cs \<Longrightarrow> column_values c s = column_values c df"
    and "set cs \<subseteq> set (columns df)"
  using assms missing_column_None [of df cs]
  by (auto simp: select_def count_def column_values_def split: option.splits)

lemma write_to_bigquery_select:
  "write_to_bigquery df p d t wh =
     bind (if t \<in> {''patients'', ''treatments'', ''hospital_analysis''}
           then select (persisted_columns t df) df else Inr df)
       (\<lambda>w. Inr (wh(table_name p d t \<mapsto> w)))"
  by (simp add: write_to_bigquery_def persisted_columns_def load_job_truncate)

lemma write_to_bigquery_Inr:
  assumes "write_to_bigquery df p d t wh = Inr wh'"
  shows "\<exists>stored. wh' = wh(table_name p d t \<mapsto> stored)
           \<and> columns stored = persisted_columns t df
           \<and> count stored = count df
           \<and> (\<forall>c \<in> set (columns stored). column_values c stored = column_values c df)"
proof (cases "t \<in> {''patients'', ''treatments'', ''hospital_analysis''}")
  case True
  then obtain s where s: "select (persisted_columns t df) df = Inr s"
      and w: "wh' = wh(table_name p d t \<mapsto> s)"
    using assms by (auto simp: write_to_bigquery_select bind_def split: sum.splits)
  show ?thesis
    using w select_Inr [OF s] by auto
next
  case False
  then have "wh' = wh(table_name p d t \<mapsto> df)"
    using assms by (auto simp: write_to_bigquery_select bind_def)
  moreover have "persisted_columns t df = columns df"
    using False by (simp add: persisted_columns_def)
  ultimately show ?thesis by auto
qed

lemma write_to_bigquery_returns:
  "(\<exists>wh'. write_to_bigquery df p d t wh = Inr wh') =
     (set (persisted_columns t df) \<subseteq> set (columns df))"
proof (cases "t \<in> {''patients'', ''treatments'', ''hospital_analysis''}")
  case True
  then show ?thesis
    using select_returns [of "persisted_columns t df" df]
    by (auto simp: write_to_bigquery_select bind_def split: sum.splits)
next
  case False
  then show ?thesis
    by (auto simp: write_to_bigquery_select bind_def persisted_columns_def)
qed

lemma write_to_bigquery_twice:
  assumes "write_to_bigquery df p d t wh = Inr wh'"
  shows "write_to_bigquery df p d t wh' = Inr wh'"
  using assms
  by (auto simp: write_to_bigquery_select bind_def split: sum.splits if_splits)


lemma upload_to_bigquery_eq:
  "upload_to_bigquery pdf p d t pwh = Inr (pwh(table_name p d t \<mapsto> pdf))"
  by (simp add: upload_to_bigquery_def load_job_truncate)

lemma patient_example_frame:
  "columns (patient_frame ps) =
     [''patient_id'', ''first_name'', ''last_name'', ''date_of_birth'', ''gender'',
      ''admission_date'', ''discharge_date'', ''diagnosis'', ''created_at'',
      ''age_at_admission'', ''length_of_stay_days'', ''full_name'', ''has_valid_dates'',
      ''has_valid_diagnosis'', ''processed_at'']"
  "set (persisted_columns ''patients'' (patient_frame ps)) \<subseteq> set (columns (patient_frame ps))"
  "persisted_columns ''patients'' (patient_frame ps) =
     [''patient_id'', ''first_name'', ''last_name'', ''date_of_birth'', ''gender'',
      ''admission_date'', ''discharge_date'', ''diagnosis'', ''created_at'']"
  "count (patient_frame ps) = length ps"
  by (simp_all add: patient_frame_def persisted_columns_def count_def)

text \<open>
  C8, as the claim states it, fails on the distributed variant: for the table
  \<^verbatim>\<open>patients\<close> the function loads a selection of nine columns, so what is read back
  from the destination is not the transformed table, which has fifteen.
\<close>

theorem load_round_trip_counterexample:
  "map_sum id
     (\<lambda>wh. (read_table wh ''proj.hospital_data.patients'' =
               Some (patient_frame (transform_patient_data example_sql patient_example)),
            map_option columns (read_table wh ''proj.hospital_data.patients'')))
     (write_to_bigquery (patient_frame (transform_patient_data example_sql patient_example))
        ''proj'' ''hospital_data'' ''patients'' Map.empty) =
   Inr (False,
        Some [''patient_id'', ''first_name'', ''last_name'', ''date_of_birth'', ''gender'',
              ''admission_date'', ''discharge_date'', ''diagnosis'', ''created_at''])"
proof -
  let ?p = "patient_frame (transform_patient_data example_sql patient_example)"
  obtain wh' where w: "write_to_bigquery ?p ''proj'' ''hospital_data'' ''patients'' Map.empty = Inr wh'"
    using write_to_bigquery_returns [of ?p "''proj''" "''hospital_data''" "''patients''" Map.empty]
      patient_example_frame(2) by blast
  obtain stored where s: "wh' = [table_name ''proj'' ''hospital_data'' ''patients'' \<mapsto> stored]"
      "columns stored = persisted_columns ''patients'' ?p"
    using write_to_bigquery_Inr [OF w] by blast
  have n: "table_name ''proj'' ''hospital_data'' ''patients'' = ''proj.hospital_data.patients''"
    by (simp add: table_name_def)
  have "stored \<noteq> ?p"
    using s(2) by (auto simp: patient_example_frame)
  then show ?thesis
    using s by (simp add: w n read_table_def patient_example_frame)
qed

text \<open>
  C8, amended. A load that returns leaves in the destination a table with the row count
  of the input, whatever the destination held before and also if it did not exist; the
  other tables of the warehouse are as they were, and the same load once more changes
  nothing. In the distributed variant the destination holds the persisted columns: for
  the tables \<^verbatim>\<open>patients\<close>, \<^verbatim>\<open>treatments\<close> and \<^verbatim>\<open>hospital_analysis\<close> the selected
  columns, each with the cells of the input, and for every other table the input as it
  is. The load returns exactly when the input has the persisted columns. In the
  single-process variant the load always returns and the destination holds the input as
  it is.
\<close>

theorem load_replaces_destination:
  "(write_to_bigquery df p d t wh = Inr wh' \<longrightarrow>
      (\<exists>stored. read_table wh' (table_name p d t) = Some stored
         \<and> columns stored = persisted_columns t df
         \<and> count stored = count df
         \<and> (\<forall>c \<in> set (columns stored). column_values c stored = column_values c df))
      \<and> (\<forall>n. n \<noteq> table_name p d t \<longrightarrow> read_table wh' n = read_table wh n)
      \<and> write_to_bigquery df p d t wh' = Inr wh')
   \<and> (\<exists>wh'. write_to_bigquery df p d t wh = Inr wh') =
       (set (persisted_columns t df) \<subseteq> set (columns df))
   \<and> (t \<notin> {''patients'', ''treatments'', ''hospital_analysis''} \<longrightarrow>
        (\<exists>wh'. write_to_bigquery df p d t wh = Inr wh'
           \<and> read_table wh' (table_name p d t) = Some df))
   \<and> (\<exists>pwh'. upload_to_bigquery pdf p d t pwh = Inr pwh'
         \<and> read_table pwh' (table_name p d t) = Some pdf
         \<and> (\<forall>n. n \<noteq> table_name p d t \<longrightarrow> read_table pwh' n = read_table pwh n)
         \<and> upload_to_bigquery pdf p d t pwh' = Inr pwh')"
proof (intro conjI impI)
  assume w: "write_to_bigquery df p d t wh = Inr wh'"
  show "\<exists>stored. read_table wh' (table_name p d t) = Some stored
         \<and> columns stored = persisted_columns t df
         \<and> count stored = count df
         \<and> (\<forall>c \<in> set (columns stored). column_values c stored = column_values c df)"
    using write_to_bigquery_Inr [OF w] by (auto simp: read_table_def)
  show "\<forall>n. n \<noteq> table_name p d t \<longrightarrow> read_table wh' n = read_table wh n"
    using write_to_bigquery_Inr [OF w] by (auto simp: read_table_def)
  show "write_to_bigquery df p d t wh' = Inr wh'"
    using w by (rule write_to_bigquery_twice)
next
  show "(\<exists>wh'. write_to_bigquery df p d t wh = Inr wh') =
       (set (persisted_columns t df) \<subseteq> set (columns df))"
    by (rule write_to_bigquery_returns)
next
  assume "t \<notin> {''patients'', ''treatments'', ''hospital_analysis''}"
  then show "\<exists>wh'. write_to_bigquery df p d t wh = Inr wh'
           \<and> read_table wh' (table_name p d t) = Some df"
    by (simp add: write_to_bigquery_select bind_def read_table_def)
next
  show "\<exists>pwh'. upload_to_bigquery pdf p d t pwh = Inr pwh'
         \<and> read_table pwh' (table_name p d t) = Some pdf
         \<and> (\<forall>n. n \<noteq> table_name p d t \<longrightarrow> read_table pwh' n = read_table pwh n)
         \<and> upload_to_bigquery pdf p d t pwh' = Inr pwh'"
    by (simp add: upload_to_bigquery_eq read_table_def)
qed

theorem load_replaces_destination_witness:
  "(\<exists>wh'. write_to_bigquery (patient_frame (transform_patient_data example_sql patient_example))
             ''proj'' ''hospital_data'' ''patients''
             [''proj.hospital_data.patients'' \<mapsto>
                patient_frame (transform_patient_data example_sql patient_duplicate_example)]
           = Inr wh'
       \<and> (\<exists>stored. read_table wh' ''proj.hospital_data.patients'' = Some stored
             \<and> count stored = 2
             \<and> columns stored =
                 [''patient_id'', ''first_name'', ''last_name'', ''date_of_birth'', ''gender'',
                  ''admission_date'', ''discharge_date'', ''diagnosis'', ''created_at'']))
   \<and> (\<exists>wh'. write_to_bigquery (patient_frame (transform_patient_data example_sql patient_example))
             ''proj'' ''hospital_data'' ''staging'' Map.empty = Inr wh'
       \<and> read_table wh' ''proj.hospital_data.staging'' =
           Some (patient_frame (transform_patient_data example_sql patient_example)))
   \<and> (\<exists>pwh'. upload_to_bigquery patients_csv_example ''proj'' ''hospital_data'' ''patients''
              [''proj.hospital_data.patients'' \<mapsto> analysis_frame_example] = Inr pwh'
       \<and> read_table pwh' ''proj.hospital_data.patients'' = Some patients_csv_example)"
proof -
  let ?p = "patient_frame (transform_patient_data example_sql patient_example)"
  let ?old = "[''proj.hospital_data.patients'' \<mapsto>
                patient_frame (transform_patient_data example_sql patient_duplicate_example)]"
  have n: "table_name ''proj'' ''hospital_data'' ''patients'' = ''proj.hospital_data.patients''"
    "table_name ''proj'' ''hospital_data'' ''staging'' = ''proj.hospital_data.staging''"
    by (simp_all add: table_name_def)
  have c: "count ?p = 2"
    by (simp add: patient_example_frame transform_patient_data_def patient_example_def)
  note t = load_replaces_destination [where df = ?p and p = "''proj''" and d = "''hospital_data''"
      and t = "''patients''" and wh = ?old]
  obtain wh' where w: "write_to_bigquery ?p ''proj'' ''hospital_data'' ''patients'' ?old = Inr wh'"
    using t [THEN conjunct2, THEN conjunct1] patient_example_frame(2) by blast
  have "\<exists>stored. read_table wh' (table_name ''proj'' ''hospital_data'' ''patients'') = Some stored
         \<and> columns stored = persisted_columns ''patients'' ?p
         \<and> count stored = count ?p
         \<and> (\<forall>c \<in> set (columns stored). column_values c stored = column_values c ?p)"
    using load_replaces_destination [where df = ?p and p = "''proj''" and d = "''hospital_data''"
      and t = "''patients''" and wh = ?old and wh' = wh', THEN conjunct1] w by blast
  then have 1: "\<exists>stored. read_table wh' ''proj.hospital_data.patients'' = Some stored
             \<and> count stored = 2
             \<and> columns stored =
                 [''patient_id'', ''first_name'', ''last_name'', ''date_of_birth'', ''gender'',
                  ''admission_date'', ''discharge_date'', ''diagnosis'', ''created_at'']"
    by (auto simp: n c patient_example_frame(3))
  have s: "''staging'' \<notin> {''patients'', ''treatments'', ''hospital_analysis''}"
    by simp
  have 2: "\<exists>wh'. write_to_bigquery ?p ''proj'' ''hospital_data'' ''staging'' Map.empty = Inr wh'
       \<and> read_table wh' ''proj.hospital_data.staging'' = Some ?p"
    using load_replaces_destination [where df = ?p and p = "''proj''" and d = "''hospital_data''"
      and t = "''staging''" and wh = Map.empty, THEN conjunct2, THEN conjunct2, THEN conjunct1] s
    by (simp add: n)
  have 3: "\<exists>pwh'. upload_to_bigquery patients_csv_example ''proj'' ''hospital_data'' ''patients''
              [''proj.hospital_data.patients'' \<mapsto> analysis_frame_example] = Inr pwh'
       \<and> read_table pwh' ''proj.hospital_data.patients'' = Some patients_csv_example"
    using load_replaces_destination [where pdf = patients_csv_example and p = "''proj''"
      and d = "''hospital_data''" and t = "''patients''"
      and pwh = "[''proj.hospital_data.patients'' \<mapsto> analysis_frame_example]",
      THEN conjunct2, THEN conjunct2, THEN conjunct2]
    by (auto simp only: n)
  from w 1 2 3 show ?thesis by blast
qed


end
